theory Spec2Isabelle
  imports Main "HOL-Library.Sublist"
begin

section \<open>Strings\<close>

text \<open>
  A Python \<open>str\<close> is a sequence of Unicode code points, and the bot's keywords and
  answers are Cyrillic, so a string is modelled as the list of its code points.
  String literals of \<open>main.py\<close> are written out code point by code point;
  purely alphanumeric ASCII literals go through \<open>ascii\<close>.
\<close>

type_synonym pystr = "nat list"

definition ascii :: "string \<Rightarrow> pystr" where
  "ascii s = map of_char s"

text \<open>
  The operator \<open>word in text\<close> on two strings: \<open>word\<close> occurs in \<open>text\<close> as a
  contiguous substring. The empty word occurs in every text.
\<close>

fun str_contains :: "pystr \<Rightarrow> pystr \<Rightarrow> bool" where
  "str_contains word [] = (word = [])"
| "str_contains word (c # cs) = (prefix word (c # cs) \<or> str_contains word cs)"

text \<open>
  \<open>any(word in text for word in words)\<close>.
\<close>

definition any_word_in :: "pystr list \<Rightarrow> pystr \<Rightarrow> bool" where
  "any_word_in words text = list_ex (\<lambda>word. str_contains word text) words"

text \<open>
  \<open>str.lower\<close> is the interpreter's, driven by the Unicode case tables, which are
  no part of \<open>main.py\<close>. The functions below take the lowercasing function as
  their first argument \<open>lower\<close>, and what is proved of them for every \<open>lower\<close>
  holds of the interpreter's. For running the model on concrete messages, and
  for what depends on the case tables themselves, \<open>str_lower\<close> and \<open>str_upper\<close>
  are \<open>str.lower\<close> and \<open>str.upper\<close> on the alphabets the bot is written for:
  they agree with the interpreter on every string whose code points lie in
  U+0000..U+007F (Basic Latin), U+0400..U+045F (the Russian alphabet and its
  neighbours), U+048A..U+04BF and U+04D0..U+04FF (where the additional Kazakh
  letters live) and U+1C80..U+1C88 (nine old variants of small Cyrillic
  letters), and leave every other code point as it is.
\<close>

definition lower_cp :: "nat \<Rightarrow> nat" where
  "lower_cp c =
     (if 0x41 \<le> c \<and> c \<le> 0x5A then c + 32
      else if 0x400 \<le> c \<and> c \<le> 0x40F then c + 80
      else if 0x410 \<le> c \<and> c \<le> 0x42F then c + 32
      else if 0x48A \<le> c \<and> c \<le> 0x4BF \<and> even c then c + 1
      else if 0x4D0 \<le> c \<and> c \<le> 0x4FF \<and> even c then c + 1
      else c)"

definition str_lower :: "pystr \<Rightarrow> pystr" where
  "str_lower s = map lower_cp s"

text \<open>
  The letters U+1C80..U+1C88 are small letters without capitals of their own:
  their uppercase forms are the capitals of the common letters they are
  variants of (U+1C80, the rounded ve, has the capital of ve, U+0412).
\<close>

definition upper_cp :: "nat \<Rightarrow> nat" where
  "upper_cp c =
     (if 0x61 \<le> c \<and> c \<le> 0x7A then c - 32
      else if 0x430 \<le> c \<and> c \<le> 0x44F then c - 32
      else if 0x450 \<le> c \<and> c \<le> 0x45F then c - 80
      else if 0x48A \<le> c \<and> c \<le> 0x4BF \<and> odd c then c - 1
      else if 0x4D0 \<le> c \<and> c \<le> 0x4FF \<and> odd c then c - 1
      else if c = 0x1C80 then 0x412
      else if c = 0x1C81 then 0x414
      else if c = 0x1C82 then 0x41E
      else if c = 0x1C83 then 0x421
      else if c = 0x1C84 \<or> c = 0x1C85 then 0x422
      else if c = 0x1C86 then 0x42A
      else if c = 0x1C87 then 0x462
      else if c = 0x1C88 then 0xA64A
      else c)"

definition str_upper :: "pystr \<Rightarrow> pystr" where
  "str_upper s = map upper_cp s"

text \<open>
  Two strings that differ only in letter case: of the same length, and at every
  position the same code point or one the lowercase or the uppercase form of
  the other. \<open>common_cp\<close> are the code points of the Latin, Russian and Kazakh
  alphabets above, without the nine variant letters.
\<close>

definition case_variant :: "pystr \<Rightarrow> pystr \<Rightarrow> bool" where
  "case_variant s t =
     list_all2 (\<lambda>c d. d = c \<or> d = lower_cp c \<or> d = upper_cp c \<or> c = lower_cp d \<or> c = upper_cp d)
       s t"

definition common_cp :: "nat \<Rightarrow> bool" where
  "common_cp c \<longleftrightarrow>
     c \<le> 0x7F \<or> (0x400 \<le> c \<and> c \<le> 0x45F) \<or> (0x48A \<le> c \<and> c \<le> 0x4BF) \<or>
     (0x4D0 \<le> c \<and> c \<le> 0x4FF)"

section \<open>The fallback responder\<close>

text \<open>
  The five keyword lists of \<open>get_fallback_response\<close>, in the order of its
  \<open>if\<close>/\<open>elif\<close> chain, and the six strings it can return.
\<close>

definition schedule_words :: "pystr list" where
  \<comment> \<open>line 180: programma, raspisanie, peredach\<close>
  "schedule_words =
    [[0x43F, 0x440, 0x43E, 0x433, 0x440, 0x430, 0x43C, 0x43C, 0x430],
     [0x440, 0x430, 0x441, 0x43F, 0x438, 0x441, 0x430, 0x43D, 0x438, 0x435],
     [0x43F, 0x435, 0x440, 0x435, 0x434, 0x430, 0x447]]"

definition quality_words :: "pystr list" where
  \<comment> \<open>line 183: kachestvo, plokho, tormozit, zavisaet\<close>
  "quality_words =
    [[0x43A, 0x430, 0x447, 0x435, 0x441, 0x442, 0x432, 0x43E],
     [0x43F, 0x43B, 0x43E, 0x445, 0x43E],
     [0x442, 0x43E, 0x440, 0x43C, 0x43E, 0x437, 0x438, 0x442],
     [0x437, 0x430, 0x432, 0x438, 0x441, 0x430, 0x435, 0x442]]"

definition setup_words :: "pystr list" where
  \<comment> \<open>line 186: nastroit, kanal, najti\<close>
  "setup_words =
    [[0x43D, 0x430, 0x441, 0x442, 0x440, 0x43E, 0x438, 0x442, 0x44C],
     [0x43A, 0x430, 0x43D, 0x430, 0x43B],
     [0x43D, 0x430, 0x439, 0x442, 0x438]]"

definition contact_words :: "pystr list" where
  \<comment> \<open>line 189: kontakt, telefon, svyazatsya\<close>
  "contact_words =
    [[0x43A, 0x43E, 0x43D, 0x442, 0x430, 0x43A, 0x442],
     [0x442, 0x435, 0x43B, 0x435, 0x444, 0x43E, 0x43D],
     [0x441, 0x432, 0x44F, 0x437, 0x430, 0x442, 0x44C, 0x441, 0x44F]]"

definition advert_words :: "pystr list" where
  \<comment> \<open>line 192: reklama, razmeshchenie\<close>
  "advert_words =
    [[0x440, 0x435, 0x43A, 0x43B, 0x430, 0x43C, 0x430],
     [0x440, 0x430, 0x437, 0x43C, 0x435, 0x449, 0x435, 0x43D, 0x438, 0x435]]"

definition schedule_answer :: pystr where
  \<comment> \<open>line 181, 76 code points: the full schedule is on dostyq.tv, section Katalog\<close>
  "schedule_answer =
    [0x1F4FA, 0x20, 0x41F, 0x43E, 0x43B, 0x43D, 0x43E, 0x435, 0x20, 0x440, 0x430, 0x441,
     0x43F, 0x438, 0x441, 0x430, 0x43D, 0x438, 0x435, 0x20, 0x43F, 0x440, 0x43E, 0x433,
     0x440, 0x430, 0x43C, 0x43C, 0x20, 0x434, 0x43E, 0x441, 0x442, 0x443, 0x43F, 0x43D,
     0x43E, 0x20, 0x43D, 0x430, 0x20, 0x441, 0x430, 0x439, 0x442, 0x435, 0x20, 0x64,
     0x6F, 0x73, 0x74, 0x79, 0x71, 0x2E, 0x74, 0x76, 0x20, 0x432, 0x20, 0x440,
     0x430, 0x437, 0x434, 0x435, 0x43B, 0x435, 0x20, 0x27, 0x41A, 0x430, 0x442, 0x430,
     0x43B, 0x43E, 0x433, 0x27]"

definition quality_answer :: pystr where
  \<comment> \<open>line 184, 140 code points: restart the set-top box, else call support, with two phone numbers\<close>
  "quality_answer =
    [0x1F527, 0x20, 0x41F, 0x440, 0x438, 0x20, 0x43F, 0x440, 0x43E, 0x431, 0x43B, 0x435,
     0x43C, 0x430, 0x445, 0x20, 0x441, 0x20, 0x43A, 0x430, 0x447, 0x435, 0x441, 0x442,
     0x432, 0x43E, 0x43C, 0x2C, 0x20, 0x43F, 0x43E, 0x43F, 0x440, 0x43E, 0x431, 0x443,
     0x439, 0x442, 0x435, 0x20, 0x43F, 0x435, 0x440, 0x435, 0x437, 0x430, 0x433, 0x440,
     0x443, 0x437, 0x438, 0x442, 0x44C, 0x20, 0x43F, 0x440, 0x438, 0x441, 0x442, 0x430,
     0x432, 0x43A, 0x443, 0x2E, 0x20, 0x415, 0x441, 0x43B, 0x438, 0x20, 0x43D, 0x435,
     0x20, 0x43F, 0x43E, 0x43C, 0x43E, 0x433, 0x43B, 0x43E, 0x2C, 0x20, 0x441, 0x432,
     0x44F, 0x436, 0x438, 0x442, 0x435, 0x441, 0x44C, 0x20, 0x441, 0x20, 0x43F, 0x43E,
     0x434, 0x434, 0x435, 0x440, 0x436, 0x43A, 0x43E, 0x439, 0x3A, 0x20, 0x2B, 0x37,
     0x20, 0x37, 0x37, 0x31, 0x20, 0x33, 0x30, 0x30, 0x20, 0x30, 0x35, 0x20,
     0x30, 0x32, 0x2C, 0x20, 0x2B, 0x37, 0x20, 0x37, 0x30, 0x32, 0x20, 0x33,
     0x30, 0x30, 0x20, 0x30, 0x35, 0x20, 0x30, 0x31]"

definition setup_answer :: pystr where
  \<comment> \<open>line 187, 142 code points: the channel is at position 44 of the cable networks, else ask the operator\<close>
  "setup_answer =
    [0x2699, 0xFE0F, 0x20, 0x41D, 0x430, 0x441, 0x442, 0x440, 0x43E, 0x439, 0x43A, 0x430,
     0x20, 0x43A, 0x430, 0x43D, 0x430, 0x43B, 0x430, 0x20, 0x44, 0x6F, 0x73, 0x74,
     0x79, 0x71, 0x54, 0x56, 0x3A, 0xA, 0xA, 0x1F4CD, 0x20, 0x41D, 0x430, 0x439,
     0x434, 0x438, 0x442, 0x435, 0x20, 0x43D, 0x430, 0x441, 0x20, 0x43D, 0x430, 0x20,
     0x43F, 0x43E, 0x437, 0x438, 0x446, 0x438, 0x438, 0x20, 0x34, 0x34, 0x20, 0x432,
     0x20, 0x43A, 0x430, 0x431, 0x435, 0x43B, 0x44C, 0x43D, 0x44B, 0x445, 0x20, 0x441,
     0x435, 0x442, 0x44F, 0x445, 0x2E, 0x20, 0x415, 0x441, 0x43B, 0x438, 0x20, 0x43D,
     0x435, 0x20, 0x43F, 0x43E, 0x43B, 0x443, 0x447, 0x430, 0x435, 0x442, 0x441, 0x44F,
     0x2C, 0x20, 0x43E, 0x431, 0x440, 0x430, 0x442, 0x438, 0x442, 0x435, 0x441, 0x44C,
     0x20, 0x43A, 0x20, 0x432, 0x430, 0x448, 0x435, 0x43C, 0x443, 0x20, 0x43E, 0x43F,
     0x435, 0x440, 0x430, 0x442, 0x43E, 0x440, 0x443, 0x20, 0x43A, 0x430, 0x431, 0x435,
     0x43B, 0x44C, 0x43D, 0x43E, 0x433, 0x43E, 0x20, 0x422, 0x412, 0x2E]"

definition contact_answer :: pystr where
  \<comment> \<open>line 190, 104 code points: phone, e-mail and site of the support\<close>
  "contact_answer =
    [0x1F4DE, 0x20, 0x41A, 0x43E, 0x43D, 0x442, 0x430, 0x43A, 0x442, 0x44B, 0x20, 0x44,
     0x6F, 0x73, 0x74, 0x79, 0x71, 0x54, 0x56, 0x3A, 0xA, 0xA, 0x260E, 0xFE0F,
     0x20, 0x41F, 0x43E, 0x434, 0x434, 0x435, 0x440, 0x436, 0x43A, 0x430, 0x3A, 0x20,
     0x2B, 0x37, 0x20, 0x37, 0x37, 0x37, 0x20, 0x30, 0x31, 0x33, 0x20, 0x33,
     0x38, 0x31, 0x32, 0xA, 0x1F4E7, 0x20, 0x45, 0x6D, 0x61, 0x69, 0x6C, 0x3A,
     0x20, 0x73, 0x75, 0x70, 0x70, 0x6F, 0x72, 0x74, 0x40, 0x64, 0x6F, 0x73,
     0x74, 0x79, 0x71, 0x2E, 0x74, 0x76, 0xA, 0x1F310, 0x20, 0x421, 0x430, 0x439,
     0x442, 0x3A, 0x20, 0x68, 0x74, 0x74, 0x70, 0x73, 0x3A, 0x2F, 0x2F, 0x64,
     0x6F, 0x73, 0x74, 0x79, 0x71, 0x2E, 0x74, 0x76]"

definition advert_answer :: pystr where
  \<comment> \<open>line 193, 75 code points: e-mail and phone for placing advertisements\<close>
  "advert_answer =
    [0x1F4E2, 0x20, 0x41F, 0x43E, 0x20, 0x432, 0x43E, 0x43F, 0x440, 0x43E, 0x441, 0x430,
     0x43C, 0x20, 0x440, 0x430, 0x437, 0x43C, 0x435, 0x449, 0x435, 0x43D, 0x438, 0x44F,
     0x20, 0x440, 0x435, 0x43A, 0x43B, 0x430, 0x43C, 0x44B, 0x3A, 0xA, 0xA, 0x1F4E7,
     0x20, 0x72, 0x65, 0x6B, 0x6C, 0x61, 0x6D, 0x61, 0x40, 0x64, 0x6F, 0x73,
     0x74, 0x79, 0x71, 0x2E, 0x74, 0x76, 0xA, 0x260E, 0xFE0F, 0x20, 0x2B, 0x37,
     0x20, 0x28, 0x37, 0x32, 0x37, 0x29, 0x20, 0x32, 0x34, 0x2D, 0x32, 0x34,
     0x2D, 0x32, 0x35]"

definition generic_greeting :: pystr where
  \<comment> \<open>line 196, 150 code points: a greeting, and the advice to use /help or describe the problem\<close>
  "generic_greeting =
    [0x1F44B, 0x20, 0x417, 0x434, 0x440, 0x430, 0x432, 0x441, 0x442, 0x432, 0x443, 0x439,
     0x442, 0x435, 0x21, 0x20, 0x42F, 0x20, 0x43F, 0x43E, 0x43C, 0x43E, 0x433, 0x443,
     0x20, 0x432, 0x430, 0x43C, 0x20, 0x441, 0x20, 0x432, 0x43E, 0x43F, 0x440, 0x43E,
     0x441, 0x430, 0x43C, 0x438, 0x20, 0x43F, 0x43E, 0x20, 0x442, 0x435, 0x43B, 0x435,
     0x43A, 0x430, 0x43D, 0x430, 0x43B, 0x443, 0x20, 0x44, 0x6F, 0x73, 0x74, 0x79,
     0x71, 0x54, 0x56, 0x2E, 0xA, 0xA, 0x1F50D, 0x20, 0x418, 0x441, 0x43F, 0x43E,
     0x43B, 0x44C, 0x437, 0x443, 0x439, 0x442, 0x435, 0x20, 0x2F, 0x68, 0x65, 0x6C,
     0x70, 0x20, 0x434, 0x43B, 0x44F, 0x20, 0x43F, 0x440, 0x43E, 0x441, 0x43C, 0x43E,
     0x442, 0x440, 0x430, 0x20, 0x434, 0x43E, 0x441, 0x442, 0x443, 0x43F, 0x43D, 0x44B,
     0x445, 0x20, 0x43A, 0x43E, 0x43C, 0x430, 0x43D, 0x434, 0x20, 0x438, 0x43B, 0x438,
     0x20, 0x43F, 0x440, 0x43E, 0x441, 0x442, 0x43E, 0x20, 0x43E, 0x43F, 0x438, 0x448,
     0x438, 0x442, 0x435, 0x20, 0x432, 0x430, 0x448, 0x443, 0x20, 0x43F, 0x440, 0x43E,
     0x431, 0x43B, 0x435, 0x43C, 0x443, 0x2E]"

text \<open>
  \<open>get_fallback_response\<close> (lines 175-196): lowercase the message once, then walk
  the chain; the first list with a word occurring in the lowercased message decides.
  On a string, \<open>lower\<close>, \<open>in\<close> and \<open>any\<close> over a literal list cannot raise, so the
  function has no failing branch and its model is a plain function.
\<close>

definition get_fallback_response :: "(pystr \<Rightarrow> pystr) \<Rightarrow> pystr \<Rightarrow> pystr" where
  "get_fallback_response lower user_message =
     (let message_lower = lower user_message in
      if any_word_in schedule_words message_lower then schedule_answer
      else if any_word_in quality_words message_lower then quality_answer
      else if any_word_in setup_words message_lower then setup_answer
      else if any_word_in contact_words message_lower then contact_answer
      else if any_word_in advert_words message_lower then advert_answer
      else generic_greeting)"

text \<open>
  The responder as the specification words it: a table of keyword sets with their
  canned answers in priority order, searched for the first set that matches.
\<close>

definition priority_table :: "(pystr list \<times> pystr) list" where
  "priority_table =
     [(schedule_words, schedule_answer),
      (quality_words, quality_answer),
      (setup_words, setup_answer),
      (contact_words, contact_answer),
      (advert_words, advert_answer)]"

fun first_matching :: "(pystr list \<times> pystr) list \<Rightarrow> pystr \<Rightarrow> pystr option" where
  "first_matching [] text = None"
| "first_matching ((words, answer) # rest) text =
     (if any_word_in words text then Some answer else first_matching rest text)"

definition spec_respond :: "(pystr \<Rightarrow> pystr) \<Rightarrow> pystr \<Rightarrow> pystr" where
  "spec_respond lower message =
     (case first_matching priority_table (lower message) of
        Some answer \<Rightarrow> answer
      | None \<Rightarrow> generic_greeting)"

section \<open>The texts of the bot\<close>

text \<open>
  The knowledge base and the FAQ of \<open>__init__\<close> (lines 40-67), two dictionaries, as
  association lists in the order of their literals; then the string literals of the
  handlers, an f-string as the pieces between its values.
\<close>

definition knowledge_base :: "(pystr \<times> (pystr \<times> pystr) list) list" where
  "knowledge_base =
    [([0x43F, 0x440, 0x43E, 0x433, 0x440, 0x430, 0x43C, 0x43C, 0x44B],
      [([0x43D, 0x43E, 0x432, 0x43E, 0x441, 0x442, 0x438],
        [0x41D, 0x43E, 0x432, 0x43E, 0x441, 0x442, 0x438, 0x20, 0x437, 0x430, 0x43F, 0x443,
         0x441, 0x442, 0x44F, 0x442, 0x441, 0x44F, 0x20, 0x432, 0x20, 0x431, 0x43B, 0x438,
         0x436, 0x430, 0x439, 0x448, 0x435, 0x435, 0x20, 0x432, 0x440, 0x435, 0x43C, 0x44F,
         0x2E, 0x20, 0x421, 0x43B, 0x435, 0x434, 0x438, 0x442, 0x435, 0x20, 0x437, 0x430,
         0x20, 0x43E, 0x431, 0x43D, 0x43E, 0x432, 0x43B, 0x435, 0x43D, 0x438, 0x44F, 0x43C,
         0x438, 0x21]),
       ([0x441, 0x435, 0x440, 0x438, 0x430, 0x43B, 0x44B],
        [0x41F, 0x43E, 0x43F, 0x443, 0x43B, 0x44F, 0x440, 0x43D, 0x44B, 0x435, 0x20, 0x441,
         0x435, 0x440, 0x438, 0x430, 0x43B, 0x44B, 0x3A, 0x20, 0x22, 0x422, 0x440, 0x43E,
         0x446, 0x43A, 0x438, 0x439, 0x22, 0x2C, 0x20, 0x22, 0x414, 0x435, 0x442, 0x435,
         0x43A, 0x442, 0x438, 0x432, 0x43D, 0x44B, 0x439, 0x20, 0x441, 0x438, 0x43D, 0x434,
         0x440, 0x43E, 0x43C, 0x22, 0x2C, 0x20, 0x22, 0x410, 0x43A, 0x442, 0x435, 0x440,
         0x22]),
       ([0x434, 0x435, 0x442, 0x441, 0x43A, 0x438, 0x435],
        [0x414, 0x435, 0x442, 0x441, 0x43A, 0x438, 0x435, 0x20, 0x43F, 0x440, 0x43E, 0x433,
         0x440, 0x430, 0x43C, 0x43C, 0x44B, 0x20, 0x437, 0x430, 0x43F, 0x443, 0x441, 0x442,
         0x44F, 0x442, 0x441, 0x44F, 0x20, 0x432, 0x20, 0x431, 0x43B, 0x438, 0x436, 0x430,
         0x439, 0x448, 0x435, 0x435, 0x20, 0x432, 0x440, 0x435, 0x43C, 0x44F, 0x2E, 0x20,
         0x421, 0x43B, 0x435, 0x434, 0x438, 0x442, 0x435, 0x20, 0x437, 0x430, 0x20, 0x43E,
         0x431, 0x43D, 0x43E, 0x432, 0x43B, 0x435, 0x43D, 0x438, 0x44F, 0x43C, 0x438, 0x21]),
       ([0x441, 0x43F, 0x43E, 0x440, 0x442],
        [0x421, 0x43F, 0x43E, 0x440, 0x442, 0x438, 0x432, 0x43D, 0x44B, 0x435, 0x20, 0x43F,
         0x440, 0x43E, 0x433, 0x440, 0x430, 0x43C, 0x43C, 0x44B, 0x20, 0x437, 0x430, 0x43F,
         0x443, 0x441, 0x442, 0x44F, 0x442, 0x441, 0x44F, 0x20, 0x432, 0x20, 0x431, 0x43B,
         0x438, 0x436, 0x430, 0x439, 0x448, 0x435, 0x435, 0x20, 0x432, 0x440, 0x435, 0x43C,
         0x44F, 0x2E, 0x20, 0x421, 0x43B, 0x435, 0x434, 0x438, 0x442, 0x435, 0x20, 0x437,
         0x430, 0x20, 0x43E, 0x431, 0x43D, 0x43E, 0x432, 0x43B, 0x435, 0x43D, 0x438, 0x44F,
         0x43C, 0x438, 0x21])]),
     ([0x442, 0x435, 0x445, 0x43D, 0x438, 0x447, 0x435, 0x441, 0x43A, 0x438, 0x435],
      [([0x43A, 0x430, 0x447, 0x435, 0x441, 0x442, 0x432, 0x43E],
        [0x412, 0x435, 0x449, 0x430, 0x43D, 0x438, 0x435, 0x20, 0x432, 0x20, 0x48, 0x44,
         0x20, 0x43A, 0x430, 0x447, 0x435, 0x441, 0x442, 0x432, 0x435, 0x20, 0x31, 0x30,
         0x38, 0x30, 0x70]),
       ([0x43A, 0x430, 0x43D, 0x430, 0x43B, 0x44B],
        [0x44, 0x6F, 0x73, 0x74, 0x79, 0x71, 0x54, 0x56, 0x20, 0x434, 0x43E, 0x441,
         0x442, 0x443, 0x43F, 0x435, 0x43D, 0x20, 0x43D, 0x430, 0x20, 0x43F, 0x43E, 0x437,
         0x438, 0x446, 0x438, 0x438, 0x20, 0x34, 0x34, 0x20, 0x432, 0x20, 0x43A, 0x430,
         0x431, 0x435, 0x43B, 0x44C, 0x43D, 0x44B, 0x445, 0x20, 0x441, 0x435, 0x442, 0x44F,
         0x445]),
       ([0x438, 0x43D, 0x442, 0x435, 0x440, 0x43D, 0x435, 0x442],
        [0x41E, 0x43D, 0x43B, 0x430, 0x439, 0x43D, 0x20, 0x442, 0x440, 0x430, 0x43D, 0x441,
         0x43B, 0x44F, 0x446, 0x438, 0x44F, 0x20, 0x434, 0x43E, 0x441, 0x442, 0x443, 0x43F,
         0x43D, 0x430, 0x20, 0x43D, 0x430, 0x20, 0x441, 0x430, 0x439, 0x442, 0x435, 0x20,
         0x64, 0x6F, 0x73, 0x74, 0x79, 0x71, 0x2E, 0x74, 0x76]),
       ([0x43F, 0x440, 0x438, 0x43B, 0x43E, 0x436, 0x435, 0x43D, 0x438, 0x435],
        [0x41C, 0x43E, 0x431, 0x438, 0x43B, 0x44C, 0x43D, 0x43E, 0x435, 0x20, 0x43F, 0x440,
         0x438, 0x43B, 0x43E, 0x436, 0x435, 0x43D, 0x438, 0x435, 0x20, 0x44, 0x6F, 0x73,
         0x74, 0x79, 0x71, 0x54, 0x56, 0x20, 0x432, 0x20, 0x41, 0x70, 0x70, 0x20,
         0x53, 0x74, 0x6F, 0x72, 0x65, 0x20, 0x438, 0x20, 0x47, 0x6F, 0x6F, 0x67,
         0x6C, 0x65, 0x20, 0x50, 0x6C, 0x61, 0x79])]),
     ([0x43A, 0x43E, 0x43D, 0x442, 0x430, 0x43A, 0x442, 0x44B],
      [([0x442, 0x435, 0x43B, 0x435, 0x444, 0x43E, 0x43D],
        [0x2B, 0x37, 0x20, 0x37, 0x37, 0x37, 0x20, 0x30, 0x31, 0x33, 0x20, 0x33,
         0x38, 0x31, 0x32]),
       (ascii ''email'',
        [0x73, 0x75, 0x70, 0x70, 0x6F, 0x72, 0x74, 0x40, 0x64, 0x6F, 0x73, 0x74,
         0x79, 0x71, 0x2E, 0x74, 0x76]),
       ([0x430, 0x434, 0x440, 0x435, 0x441],
        [0x68, 0x74, 0x74, 0x70, 0x73, 0x3A, 0x2F, 0x2F, 0x64, 0x6F, 0x73, 0x74,
         0x79, 0x71, 0x2E, 0x74, 0x76]),
       ([0x441, 0x430, 0x439, 0x442],
        [0x68, 0x74, 0x74, 0x70, 0x73, 0x3A, 0x2F, 0x2F, 0x64, 0x6F, 0x73, 0x74,
         0x79, 0x71, 0x2E, 0x74, 0x76])])]"

definition faq :: "(pystr \<times> pystr) list" where
  "faq =
    [([0x41A, 0x430, 0x43A, 0x20, 0x43D, 0x430, 0x441, 0x442, 0x440, 0x43E, 0x438, 0x442,
       0x44C, 0x20, 0x43A, 0x430, 0x43D, 0x430, 0x43B, 0x3F],
      [0x414, 0x43B, 0x44F, 0x20, 0x43D, 0x430, 0x441, 0x442, 0x440, 0x43E, 0x439, 0x43A,
       0x438, 0x20, 0x43A, 0x430, 0x43D, 0x430, 0x43B, 0x430, 0x20, 0x43E, 0x431, 0x440,
       0x430, 0x442, 0x438, 0x442, 0x435, 0x441, 0x44C, 0x20, 0x43A, 0x20, 0x43E, 0x43F,
       0x435, 0x440, 0x430, 0x442, 0x43E, 0x440, 0x443, 0x20, 0x43A, 0x430, 0x431, 0x435,
       0x43B, 0x44C, 0x43D, 0x43E, 0x433, 0x43E, 0x20, 0x422, 0x412, 0x20, 0x438, 0x43B,
       0x438, 0x20, 0x43D, 0x430, 0x439, 0x434, 0x438, 0x442, 0x435, 0x20, 0x43A, 0x430,
       0x43D, 0x430, 0x43B, 0x20, 0x44, 0x6F, 0x73, 0x74, 0x79, 0x71, 0x54, 0x56,
       0x20, 0x43D, 0x430, 0x20, 0x43F, 0x43E, 0x437, 0x438, 0x446, 0x438, 0x438, 0x20,
       0x34, 0x34]),
     ([0x41F, 0x440, 0x43E, 0x431, 0x43B, 0x435, 0x43C, 0x44B, 0x20, 0x441, 0x20, 0x43A,
       0x430, 0x447, 0x435, 0x441, 0x442, 0x432, 0x43E, 0x43C],
      [0x41F, 0x440, 0x43E, 0x432, 0x435, 0x440, 0x44C, 0x442, 0x435, 0x20, 0x441, 0x438,
       0x43B, 0x443, 0x20, 0x441, 0x438, 0x433, 0x43D, 0x430, 0x43B, 0x430, 0x2C, 0x20,
       0x43F, 0x435, 0x440, 0x435, 0x437, 0x430, 0x433, 0x440, 0x443, 0x437, 0x438, 0x442,
       0x435, 0x20, 0x43F, 0x440, 0x438, 0x441, 0x442, 0x430, 0x432, 0x43A, 0x443, 0x2E,
       0x20, 0x415, 0x441, 0x43B, 0x438, 0x20, 0x43F, 0x440, 0x43E, 0x431, 0x43B, 0x435,
       0x43C, 0x430, 0x20, 0x43E, 0x441, 0x442, 0x430, 0x435, 0x442, 0x441, 0x44F, 0x20,
       0x2D, 0x20, 0x437, 0x432, 0x43E, 0x43D, 0x438, 0x442, 0x435, 0x20, 0x2B, 0x37,
       0x20, 0x37, 0x37, 0x31, 0x20, 0x33, 0x30, 0x30, 0x20, 0x30, 0x35, 0x20,
       0x30, 0x32, 0x2C, 0x20, 0x2B, 0x37, 0x20, 0x37, 0x30, 0x32, 0x20, 0x33,
       0x30, 0x30, 0x20, 0x30, 0x35, 0x20, 0x30, 0x31]),
     ([0x420, 0x430, 0x441, 0x43F, 0x438, 0x441, 0x430, 0x43D, 0x438, 0x435, 0x20, 0x43F,
       0x440, 0x43E, 0x433, 0x440, 0x430, 0x43C, 0x43C],
      [0x41F, 0x43E, 0x43B, 0x43D, 0x43E, 0x435, 0x20, 0x440, 0x430, 0x441, 0x43F, 0x438,
       0x441, 0x430, 0x43D, 0x438, 0x435, 0x20, 0x434, 0x43E, 0x441, 0x442, 0x443, 0x43F,
       0x43D, 0x43E, 0x20, 0x43D, 0x430, 0x20, 0x441, 0x430, 0x439, 0x442, 0x435, 0x20,
       0x64, 0x6F, 0x73, 0x74, 0x79, 0x71, 0x2E, 0x74, 0x76, 0x20, 0x432, 0x20,
       0x440, 0x430, 0x437, 0x434, 0x435, 0x43B, 0x435, 0x20, 0x22, 0x41A, 0x430, 0x442,
       0x430, 0x43B, 0x43E, 0x433, 0x22]),
     ([0x420, 0x435, 0x43A, 0x43B, 0x430, 0x43C, 0x430, 0x20, 0x43D, 0x430, 0x20, 0x43A,
       0x430, 0x43D, 0x430, 0x43B, 0x435],
      [0x41F, 0x43E, 0x20, 0x432, 0x43E, 0x43F, 0x440, 0x43E, 0x441, 0x430, 0x43C, 0x20,
       0x440, 0x430, 0x437, 0x43C, 0x435, 0x449, 0x435, 0x43D, 0x438, 0x44F, 0x20, 0x440,
       0x435, 0x43A, 0x43B, 0x430, 0x43C, 0x44B, 0x3A, 0x20, 0x72, 0x65, 0x6B, 0x6C,
       0x61, 0x6D, 0x61, 0x40, 0x64, 0x6F, 0x73, 0x74, 0x79, 0x71, 0x2E, 0x74,
       0x76, 0x20, 0x438, 0x43B, 0x438, 0x20, 0x2B, 0x37, 0x20, 0x28, 0x37, 0x32,
       0x37, 0x29, 0x20, 0x32, 0x34, 0x2D, 0x32, 0x34, 0x2D, 0x32, 0x35])]"

definition key_schedule :: pystr where
  \<comment> \<open>Raspisanie programm, the FAQ key read by the schedule button (line 282)\<close>
  "key_schedule =
    [0x420, 0x430, 0x441, 0x43F, 0x438, 0x441, 0x430, 0x43D, 0x438, 0x435, 0x20, 0x43F,
     0x440, 0x43E, 0x433, 0x440, 0x430, 0x43C, 0x43C]"

definition key_quality :: pystr where
  \<comment> \<open>Problemy s kachestvom, the FAQ key read by the support button (line 286)\<close>
  "key_quality =
    [0x41F, 0x440, 0x43E, 0x431, 0x43B, 0x435, 0x43C, 0x44B, 0x20, 0x441, 0x20, 0x43A,
     0x430, 0x447, 0x435, 0x441, 0x442, 0x432, 0x43E, 0x43C]"

definition key_contacts :: pystr where
  \<comment> \<open>kontakty, a key of the knowledge base (line 290)\<close>
  "key_contacts =
    [0x43A, 0x43E, 0x43D, 0x442, 0x430, 0x43A, 0x442, 0x44B]"

definition key_phone :: pystr where
  \<comment> \<open>telefon (line 290)\<close>
  "key_phone =
    [0x442, 0x435, 0x43B, 0x435, 0x444, 0x43E, 0x43D]"

definition key_site :: pystr where
  \<comment> \<open>sajt (line 290)\<close>
  "key_site =
    [0x441, 0x430, 0x439, 0x442]"

definition welcome_head :: pystr where
  \<comment> \<open>the welcome text up to the first name (line 232)\<close>
  "welcome_head =
    [0xA, 0x1F44B, 0x20, 0x414, 0x43E, 0x431, 0x440, 0x43E, 0x20, 0x43F, 0x43E, 0x436,
     0x430, 0x43B, 0x43E, 0x432, 0x430, 0x442, 0x44C, 0x20, 0x432, 0x20, 0x441, 0x43B,
     0x443, 0x436, 0x431, 0x443, 0x20, 0x43F, 0x43E, 0x434, 0x434, 0x435, 0x440, 0x436,
     0x43A, 0x438, 0x20, 0x44, 0x6F, 0x73, 0x74, 0x79, 0x71, 0x54, 0x56, 0x21,
     0xA, 0xA, 0x41F, 0x440, 0x438, 0x432, 0x435, 0x442, 0x2C, 0x20]"

definition welcome_tail :: pystr where
  \<comment> \<open>the welcome text after the first name (line 232)\<close>
  "welcome_tail =
    [0x21, 0x20, 0x42F, 0x20, 0x432, 0x430, 0x448, 0x20, 0x432, 0x438, 0x440, 0x442,
     0x443, 0x430, 0x43B, 0x44C, 0x43D, 0x44B, 0x439, 0x20, 0x43F, 0x43E, 0x43C, 0x43E,
     0x449, 0x43D, 0x438, 0x43A, 0x2E, 0x20, 0x41F, 0x43E, 0x43C, 0x43E, 0x433, 0x443,
     0x20, 0x440, 0x435, 0x448, 0x438, 0x442, 0x44C, 0x20, 0x43B, 0x44E, 0x431, 0x44B,
     0x435, 0x20, 0x432, 0x43E, 0x43F, 0x440, 0x43E, 0x441, 0x44B, 0x20, 0x441, 0x432,
     0x44F, 0x437, 0x430, 0x43D, 0x43D, 0x44B, 0x435, 0x20, 0x441, 0x20, 0x43F, 0x440,
     0x43E, 0x441, 0x43C, 0x43E, 0x442, 0x440, 0x43E, 0x43C, 0x20, 0x44, 0x6F, 0x73,
     0x74, 0x79, 0x71, 0x54, 0x56, 0x2E, 0xA, 0xA, 0x1F525, 0x20, 0x427, 0x442,
     0x43E, 0x20, 0x44F, 0x20, 0x443, 0x43C, 0x435, 0x44E, 0x3A, 0xA, 0x2022, 0x20,
     0x41E, 0x442, 0x432, 0x435, 0x447, 0x430, 0x442, 0x44C, 0x20, 0x43D, 0x430, 0x20,
     0x432, 0x43E, 0x43F, 0x440, 0x43E, 0x441, 0x44B, 0x20, 0x43E, 0x20, 0x43F, 0x440,
     0x43E, 0x433, 0x440, 0x430, 0x43C, 0x43C, 0x430, 0x445, 0x20, 0x43F, 0x435, 0x440,
     0x435, 0x434, 0x430, 0x447, 0xA, 0x2022, 0x20, 0x41F, 0x43E, 0x43C, 0x43E, 0x433,
     0x430, 0x442, 0x44C, 0x20, 0x441, 0x20, 0x442, 0x435, 0x445, 0x43D, 0x438, 0x447,
     0x435, 0x441, 0x43A, 0x438, 0x43C, 0x438, 0x20, 0x43F, 0x440, 0x43E, 0x431, 0x43B,
     0x435, 0x43C, 0x430, 0x43C, 0x438, 0xA, 0x2022, 0x20, 0x41F, 0x440, 0x435, 0x434,
     0x43E, 0x441, 0x442, 0x430, 0x432, 0x43B, 0x44F, 0x442, 0x44C, 0x20, 0x43A, 0x43E,
     0x43D, 0x442, 0x430, 0x43A, 0x442, 0x43D, 0x443, 0x44E, 0x20, 0x438, 0x43D, 0x444,
     0x43E, 0x440, 0x43C, 0x430, 0x446, 0x438, 0x44E, 0xA, 0x2022, 0x20, 0x421, 0x43E,
     0x437, 0x434, 0x430, 0x432, 0x430, 0x442, 0x44C, 0x20, 0x43E, 0x431, 0x440, 0x430,
     0x449, 0x435, 0x43D, 0x438, 0x44F, 0x20, 0x432, 0x20, 0x441, 0x43B, 0x443, 0x436,
     0x431, 0x443, 0x20, 0x43F, 0x43E, 0x434, 0x434, 0x435, 0x440, 0x436, 0x43A, 0x438,
     0xA, 0xA, 0x1F4A1, 0x20, 0x41F, 0x440, 0x43E, 0x441, 0x442, 0x43E, 0x20, 0x43D,
     0x430, 0x43F, 0x438, 0x448, 0x438, 0x442, 0x435, 0x20, 0x432, 0x430, 0x448, 0x20,
     0x432, 0x43E, 0x43F, 0x440, 0x43E, 0x441, 0x20, 0x438, 0x43B, 0x438, 0x20, 0x438,
     0x441, 0x43F, 0x43E, 0x43B, 0x44C, 0x437, 0x443, 0x439, 0x442, 0x435, 0x20, 0x43A,
     0x43E, 0x43C, 0x430, 0x43D, 0x434, 0x44B, 0x20, 0x43D, 0x438, 0x436, 0x435, 0x3A,
     0xA, 0x20, 0x20, 0x20, 0x20, 0x20, 0x20, 0x20, 0x20]"

definition help_text :: pystr where
  \<comment> \<open>the text of the help command (line 258)\<close>
  "help_text =
    [0xA, 0x1F916, 0x20, 0x41A, 0x43E, 0x43C, 0x430, 0x43D, 0x434, 0x44B, 0x20, 0x431,
     0x43E, 0x442, 0x430, 0x20, 0x44, 0x6F, 0x73, 0x74, 0x79, 0x71, 0x54, 0x56,
     0x3A, 0xA, 0xA, 0x2F, 0x73, 0x74, 0x61, 0x72, 0x74, 0x20, 0x2D, 0x20,
     0x41D, 0x430, 0x447, 0x430, 0x442, 0x44C, 0x20, 0x440, 0x430, 0x431, 0x43E, 0x442,
     0x443, 0x20, 0x441, 0x20, 0x431, 0x43E, 0x442, 0x43E, 0x43C, 0xA, 0x2F, 0x68,
     0x65, 0x6C, 0x70, 0x20, 0x2D, 0x20, 0x41F, 0x43E, 0x43A, 0x430, 0x437, 0x430,
     0x442, 0x44C, 0x20, 0x44D, 0x442, 0x43E, 0x20, 0x441, 0x43E, 0x43E, 0x431, 0x449,
     0x435, 0x43D, 0x438, 0x435, 0xA, 0x2F, 0x73, 0x63, 0x68, 0x65, 0x64, 0x75,
     0x6C, 0x65, 0x20, 0x2D, 0x20, 0x41F, 0x440, 0x43E, 0x433, 0x440, 0x430, 0x43C,
     0x43C, 0x430, 0x20, 0x43F, 0x435, 0x440, 0x435, 0x434, 0x430, 0x447, 0xA, 0x2F,
     0x63, 0x6F, 0x6E, 0x74, 0x61, 0x63, 0x74, 0x20, 0x2D, 0x20, 0x41A, 0x43E,
     0x43D, 0x442, 0x430, 0x43A, 0x442, 0x43D, 0x430, 0x44F, 0x20, 0x438, 0x43D, 0x444,
     0x43E, 0x440, 0x43C, 0x430, 0x446, 0x438, 0x44F, 0xA, 0x2F, 0x66, 0x61, 0x71,
     0x20, 0x2D, 0x20, 0x427, 0x430, 0x441, 0x442, 0x43E, 0x20, 0x437, 0x430, 0x434,
     0x430, 0x432, 0x430, 0x435, 0x43C, 0x44B, 0x435, 0x20, 0x432, 0x43E, 0x43F, 0x440,
     0x43E, 0x441, 0x44B, 0xA, 0x2F, 0x74, 0x69, 0x63, 0x6B, 0x65, 0x74, 0x20,
     0x2D, 0x20, 0x421, 0x43E, 0x437, 0x434, 0x430, 0x442, 0x44C, 0x20, 0x43E, 0x431,
     0x440, 0x430, 0x449, 0x435, 0x43D, 0x438, 0x435, 0x20, 0x432, 0x20, 0x43F, 0x43E,
     0x434, 0x434, 0x435, 0x440, 0x436, 0x43A, 0x443, 0xA, 0x2F, 0x73, 0x74, 0x61,
     0x74, 0x75, 0x73, 0x20, 0x2D, 0x20, 0x41F, 0x440, 0x43E, 0x432, 0x435, 0x440,
     0x438, 0x442, 0x44C, 0x20, 0x441, 0x442, 0x430, 0x442, 0x443, 0x441, 0x20, 0x43E,
     0x431, 0x440, 0x430, 0x449, 0x435, 0x43D, 0x438, 0x44F, 0xA, 0xA, 0x1F4AC, 0x20,
     0x412, 0x44B, 0x20, 0x442, 0x430, 0x43A, 0x436, 0x435, 0x20, 0x43C, 0x43E, 0x436,
     0x435, 0x442, 0x435, 0x20, 0x43F, 0x440, 0x43E, 0x441, 0x442, 0x43E, 0x20, 0x43D,
     0x430, 0x43F, 0x438, 0x441, 0x430, 0x442, 0x44C, 0x20, 0x432, 0x430, 0x448, 0x20,
     0x432, 0x43E, 0x43F, 0x440, 0x43E, 0x441, 0x2C, 0x20, 0x438, 0x20, 0x44F, 0x20,
     0x43F, 0x43E, 0x441, 0x442, 0x430, 0x440, 0x430, 0x44E, 0x441, 0x44C, 0x20, 0x43F,
     0x43E, 0x43C, 0x43E, 0x447, 0x44C, 0x21, 0xA, 0x20, 0x20, 0x20, 0x20, 0x20,
     0x20, 0x20, 0x20]"

definition schedule_head :: pystr where
  \<comment> \<open>heading of the schedule reply (line 283)\<close>
  "schedule_head =
    [0x1F4C5, 0x20, 0x420, 0x430, 0x441, 0x43F, 0x438, 0x441, 0x430, 0x43D, 0x438, 0x435,
     0x20, 0x43F, 0x440, 0x43E, 0x433, 0x440, 0x430, 0x43C, 0x43C, 0x3A, 0xA, 0xA]"

definition support_head :: pystr where
  \<comment> \<open>heading of the support reply (line 287)\<close>
  "support_head =
    [0x1F527, 0x20, 0x422, 0x435, 0x445, 0x43D, 0x438, 0x447, 0x435, 0x441, 0x43A, 0x430,
     0x44F, 0x20, 0x43F, 0x43E, 0x434, 0x434, 0x435, 0x440, 0x436, 0x43A, 0x430, 0x3A,
     0xA, 0xA]"

definition contacts_head :: pystr where
  \<comment> \<open>heading of the contacts reply, up to the phone number (line 290)\<close>
  "contacts_head =
    [0x1F4DE, 0x20, 0x41A, 0x43E, 0x43D, 0x442, 0x430, 0x43A, 0x442, 0x44B, 0x3A, 0xA,
     0xA, 0x422, 0x435, 0x43B, 0x435, 0x444, 0x43E, 0x43D, 0x3A, 0x20]"

definition contacts_email :: pystr where
  \<comment> \<open>label of the e-mail address (line 290)\<close>
  "contacts_email =
    [0xA, 0x45, 0x6D, 0x61, 0x69, 0x6C, 0x3A, 0x20]"

definition contacts_site :: pystr where
  \<comment> \<open>label of the site (line 290)\<close>
  "contacts_site =
    [0xA, 0x421, 0x430, 0x439, 0x442, 0x3A, 0x20]"

definition faq_question_mark :: pystr where
  \<comment> \<open>what precedes a question in the FAQ listing (line 294)\<close>
  "faq_question_mark =
    [0x2753, 0x20]"

definition faq_answer_mark :: pystr where
  \<comment> \<open>what precedes an answer in the FAQ listing (line 294)\<close>
  "faq_answer_mark =
    [0xA, 0x2705, 0x20]"

definition faq_separator :: pystr where
  \<comment> \<open>what joins the items of the FAQ listing (line 295)\<close>
  "faq_separator =
    [0xA, 0xA]"

definition faq_head :: pystr where
  \<comment> \<open>heading of the FAQ listing (line 296)\<close>
  "faq_head =
    [0x1F4CB, 0x20, 0x427, 0x430, 0x441, 0x442, 0x43E, 0x20, 0x437, 0x430, 0x434, 0x430,
     0x432, 0x430, 0x435, 0x43C, 0x44B, 0x435, 0x20, 0x432, 0x43E, 0x43F, 0x440, 0x43E,
     0x441, 0x44B, 0x3A, 0xA, 0xA]"

definition label_schedule :: pystr where
  \<comment> \<open>button label (line 247)\<close>
  "label_schedule =
    [0x1F4FA, 0x20, 0x41F, 0x440, 0x43E, 0x433, 0x440, 0x430, 0x43C, 0x43C, 0x430, 0x20,
     0x43F, 0x435, 0x440, 0x435, 0x434, 0x430, 0x447]"

definition label_support :: pystr where
  \<comment> \<open>button label (line 248)\<close>
  "label_support =
    [0x1F527, 0x20, 0x422, 0x435, 0x445, 0x43D, 0x438, 0x447, 0x435, 0x441, 0x43A, 0x430,
     0x44F, 0x20, 0x43F, 0x43E, 0x434, 0x434, 0x435, 0x440, 0x436, 0x43A, 0x430]"

definition label_contacts :: pystr where
  \<comment> \<open>button label (line 249)\<close>
  "label_contacts =
    [0x1F4DE, 0x20, 0x41A, 0x43E, 0x43D, 0x442, 0x430, 0x43A, 0x442, 0x44B]"

definition label_faq :: pystr where
  \<comment> \<open>button label (line 250)\<close>
  "label_faq =
    [0x1F4CB, 0x20, 0x46, 0x41, 0x51]"

definition label_contact_support :: pystr where
  \<comment> \<open>button label (line 317)\<close>
  "label_contact_support =
    [0x1F4DE, 0x20, 0x421, 0x432, 0x44F, 0x437, 0x430, 0x442, 0x44C, 0x441, 0x44F, 0x20,
     0x441, 0x20, 0x43F, 0x43E, 0x434, 0x434, 0x435, 0x440, 0x436, 0x43A, 0x43E, 0x439]"

definition label_create_ticket :: pystr where
  \<comment> \<open>button label (line 318)\<close>
  "label_create_ticket =
    [0x1F4CB, 0x20, 0x421, 0x43E, 0x437, 0x434, 0x430, 0x442, 0x44C, 0x20, 0x43E, 0x431,
     0x440, 0x430, 0x449, 0x435, 0x43D, 0x438, 0x435]"

definition ticket_placeholder :: pystr where
  \<comment> \<open>Polzovatel zaprosil sozdanie tiketa., the message of every ticket (line 330)\<close>
  "ticket_placeholder =
    [0x41F, 0x43E, 0x43B, 0x44C, 0x437, 0x43E, 0x432, 0x430, 0x442, 0x435, 0x43B, 0x44C,
     0x20, 0x437, 0x430, 0x43F, 0x440, 0x43E, 0x441, 0x438, 0x43B, 0x20, 0x441, 0x43E,
     0x437, 0x434, 0x430, 0x43D, 0x438, 0x435, 0x20, 0x442, 0x438, 0x43A, 0x435, 0x442,
     0x430, 0x2E]"

definition ticket_reply_head :: pystr where
  \<comment> \<open>the ticket reply up to the ticket number (line 335)\<close>
  "ticket_reply_head =
    [0x1F4CB, 0x20, 0x412, 0x430, 0x448, 0x435, 0x20, 0x43E, 0x431, 0x440, 0x430, 0x449,
     0x435, 0x43D, 0x438, 0x435, 0x20, 0x23]"

definition ticket_reply_tail :: pystr where
  \<comment> \<open>the ticket reply after the ticket number (line 335)\<close>
  "ticket_reply_tail =
    [0x20, 0x441, 0x43E, 0x437, 0x434, 0x430, 0x43D, 0x43E, 0x21, 0xA, 0xA, 0x41D,
     0x430, 0x448, 0x438, 0x20, 0x441, 0x43F, 0x435, 0x446, 0x438, 0x430, 0x43B, 0x438,
     0x441, 0x442, 0x44B, 0x20, 0x441, 0x43A, 0x43E, 0x440, 0x43E, 0x20, 0x441, 0x432,
     0x44F, 0x436, 0x443, 0x442, 0x441, 0x44F, 0x20, 0x441, 0x20, 0x432, 0x430, 0x43C,
     0x438, 0x2E, 0x20, 0x41F, 0x43E, 0x436, 0x430, 0x43B, 0x443, 0x439, 0x441, 0x442,
     0x430, 0x2C, 0x20, 0x43E, 0x43F, 0x438, 0x448, 0x438, 0x442, 0x435, 0x20, 0x432,
     0x430, 0x448, 0x443, 0x20, 0x43F, 0x440, 0x43E, 0x431, 0x43B, 0x435, 0x43C, 0x443,
     0x20, 0x43F, 0x43E, 0x434, 0x440, 0x43E, 0x431, 0x43D, 0x435, 0x435, 0x20, 0x432,
     0x20, 0x441, 0x43B, 0x435, 0x434, 0x443, 0x44E, 0x449, 0x435, 0x43C, 0x20, 0x441,
     0x43E, 0x43E, 0x431, 0x449, 0x435, 0x43D, 0x438, 0x438, 0x2E]"

definition denied_text :: pystr where
  \<comment> \<open>U vas net prav dlya prosmotra statistiki, the refusal (line 350)\<close>
  "denied_text =
    [0x274C, 0x20, 0x423, 0x20, 0x432, 0x430, 0x441, 0x20, 0x43D, 0x435, 0x442, 0x20,
     0x43F, 0x440, 0x430, 0x432, 0x20, 0x434, 0x43B, 0x44F, 0x20, 0x43F, 0x440, 0x43E,
     0x441, 0x43C, 0x43E, 0x442, 0x440, 0x430, 0x20, 0x441, 0x442, 0x430, 0x442, 0x438,
     0x441, 0x442, 0x438, 0x43A, 0x438]"

definition stats_head :: pystr where
  \<comment> \<open>the statistics text up to the number of users (line 366)\<close>
  "stats_head =
    [0xA, 0x1F4CA, 0x20, 0x421, 0x442, 0x430, 0x442, 0x438, 0x441, 0x442, 0x438, 0x43A,
     0x430, 0x20, 0x44, 0x6F, 0x73, 0x74, 0x79, 0x71, 0x54, 0x56, 0x20, 0x42,
     0x6F, 0x74, 0x3A, 0xA, 0xA, 0x1F465, 0x20, 0x41F, 0x43E, 0x43B, 0x44C, 0x437,
     0x43E, 0x432, 0x430, 0x442, 0x435, 0x43B, 0x438, 0x3A, 0x20]"

definition stats_open :: pystr where
  \<comment> \<open>label of the number of open tickets (line 366)\<close>
  "stats_open =
    [0xA, 0x1F3AB, 0x20, 0x41E, 0x442, 0x43A, 0x440, 0x44B, 0x442, 0x44B, 0x435, 0x20,
     0x43E, 0x431, 0x440, 0x430, 0x449, 0x435, 0x43D, 0x438, 0x44F, 0x3A, 0x20]"

definition stats_today :: pystr where
  \<comment> \<open>label of the number of tickets of today (line 366)\<close>
  "stats_today =
    [0xA, 0x1F4CB, 0x20, 0x41E, 0x431, 0x440, 0x430, 0x449, 0x435, 0x43D, 0x438, 0x44F,
     0x20, 0x437, 0x430, 0x20, 0x441, 0x435, 0x433, 0x43E, 0x434, 0x43D, 0x44F, 0x3A,
     0x20]"

definition stats_date :: pystr where
  \<comment> \<open>label of the date (line 366)\<close>
  "stats_date =
    [0xA, 0xA, 0x1F4C5, 0x20, 0x414, 0x430, 0x442, 0x430, 0x3A, 0x20]"

definition stats_tail :: pystr where
  \<comment> \<open>the end of the statistics text (line 366)\<close>
  "stats_tail =
    [0xA, 0x20, 0x20, 0x20, 0x20, 0x20, 0x20, 0x20, 0x20]"

definition log_no_key_fallback :: pystr where
  \<comment> \<open>warning of get_ai_response (line 115)\<close>
  "log_no_key_fallback =
    [0x47, 0x45, 0x4D, 0x49, 0x4E, 0x49, 0x5F, 0x41, 0x50, 0x49, 0x5F, 0x4B,
     0x45, 0x59, 0x20, 0x43D, 0x435, 0x20, 0x43D, 0x430, 0x439, 0x434, 0x435, 0x43D,
     0x2E, 0x20, 0x418, 0x441, 0x43F, 0x43E, 0x43B, 0x44C, 0x437, 0x443, 0x435, 0x442,
     0x441, 0x44F, 0x20, 0x440, 0x435, 0x437, 0x435, 0x440, 0x432, 0x43D, 0x44B, 0x439,
     0x20, 0x43E, 0x442, 0x432, 0x435, 0x442, 0x2E]"

definition log_gemini_exception :: pystr where
  \<comment> \<open>error of get_ai_response, followed by the exception (line 139)\<close>
  "log_gemini_exception =
    [0x45, 0x72, 0x72, 0x6F, 0x72, 0x20, 0x77, 0x69, 0x74, 0x68, 0x20, 0x47,
     0x65, 0x6D, 0x69, 0x6E, 0x69, 0x20, 0x41, 0x50, 0x49, 0x3A, 0x20]"

definition log_format_error :: pystr where
  \<comment> \<open>error of _call_gemini, followed by the parsed body (line 168)\<close>
  "log_format_error =
    [0x47, 0x65, 0x6D, 0x69, 0x6E, 0x69, 0x20, 0x41, 0x50, 0x49, 0x20, 0x72,
     0x65, 0x73, 0x70, 0x6F, 0x6E, 0x73, 0x65, 0x20, 0x66, 0x6F, 0x72, 0x6D,
     0x61, 0x74, 0x20, 0x65, 0x72, 0x72, 0x6F, 0x72, 0x3A, 0x20]"

definition log_status_error :: pystr where
  \<comment> \<open>error of _call_gemini, followed by the status and the body text (line 172)\<close>
  "log_status_error =
    [0x47, 0x65, 0x6D, 0x69, 0x6E, 0x69, 0x20, 0x41, 0x50, 0x49, 0x20, 0x65,
     0x72, 0x72, 0x6F, 0x72, 0x3A, 0x20]"

definition log_no_bot_token :: pystr where
  \<comment> \<open>error of run (line 415)\<close>
  "log_no_bot_token =
    [0x42, 0x4F, 0x54, 0x5F, 0x54, 0x4F, 0x4B, 0x45, 0x4E, 0x20, 0x43D, 0x435,
     0x20, 0x443, 0x441, 0x442, 0x430, 0x43D, 0x43E, 0x432, 0x43B, 0x435, 0x43D, 0x21,
     0x20, 0x41F, 0x440, 0x43E, 0x432, 0x435, 0x440, 0x44C, 0x442, 0x435, 0x20, 0x432,
     0x430, 0x448, 0x20, 0x2E, 0x65, 0x6E, 0x76, 0x20, 0x444, 0x430, 0x439, 0x43B,
     0x2E]"

definition log_no_api_key :: pystr where
  \<comment> \<open>error of run (line 418)\<close>
  "log_no_api_key =
    [0x47, 0x45, 0x4D, 0x49, 0x4E, 0x49, 0x5F, 0x41, 0x50, 0x49, 0x5F, 0x4B,
     0x45, 0x59, 0x20, 0x43D, 0x435, 0x20, 0x443, 0x441, 0x442, 0x430, 0x43D, 0x43E,
     0x432, 0x43B, 0x435, 0x43D, 0x21, 0x20, 0x41F, 0x440, 0x43E, 0x432, 0x435, 0x440,
     0x44C, 0x442, 0x435, 0x20, 0x432, 0x430, 0x448, 0x20, 0x2E, 0x65, 0x6E, 0x76,
     0x20, 0x444, 0x430, 0x439, 0x43B, 0x2E]"

definition log_started :: pystr where
  \<comment> \<open>information of run (line 432)\<close>
  "log_started =
    [0x44, 0x6F, 0x73, 0x74, 0x79, 0x71, 0x54, 0x56, 0x20, 0x53, 0x75, 0x70,
     0x70, 0x6F, 0x72, 0x74, 0x20, 0x42, 0x6F, 0x74, 0x20, 0x437, 0x430, 0x43F,
     0x443, 0x449, 0x435, 0x43D, 0x21]"

section \<open>Python values, errors and effects\<close>

text \<open>
  The exceptions the generation client and the handlers can meet.
  \<open>except Exception\<close> (line 138) catches all of them but
  \<open>asyncio.CancelledError\<close>, which derives from \<open>BaseException\<close> (Python 3.8 and
  later). \<open>AttributeError\<close> is what an attribute read on \<open>None\<close> raises.
\<close>

datatype py_error =
    ClientError | TimeoutError | ContentTypeError | JSONDecodeError | UnicodeDecodeError
  | KeyError | IndexError | TypeError | AttributeError | CancelledError

fun is_Exception :: "py_error \<Rightarrow> bool" where
  "is_Exception CancelledError = False"
| "is_Exception _ = True"

text \<open>
  What \<open>response.json()\<close> returns: a parsed JSON value. An object is the
  association list of its \<open>dict\<close>; a number stands for \<open>int\<close> and \<open>float\<close>
  alike, which behave the same under the three operations used on it.
\<close>

datatype json =
    JNull | JBool bool | JNum int | JStr pystr | JArr "json list" | JObj "(pystr \<times> json) list"

text \<open>Truth value of a parsed value, as \<open>and\<close> and \<open>if\<close> test it.\<close>

fun truthy :: "json \<Rightarrow> bool" where
  "truthy JNull = False"
| "truthy (JBool b) = b"
| "truthy (JNum n) = (n \<noteq> 0)"
| "truthy (JStr s) = (s \<noteq> [])"
| "truthy (JArr xs) = (xs \<noteq> [])"
| "truthy (JObj kvs) = (kvs \<noteq> [])"

text \<open>\<open>key in value\<close> for a string \<open>key\<close>: a key of a dict, an element of a list, a
  substring of a string; anything else is not iterable.\<close>

fun py_in :: "pystr \<Rightarrow> json \<Rightarrow> py_error + bool" where
  "py_in key (JObj kvs) = Inr (map_of kvs key \<noteq> None)"
| "py_in key (JArr xs) = Inr (JStr key \<in> set xs)"
| "py_in key (JStr s) = Inr (str_contains key s)"
| "py_in key _ = Inl TypeError"

text \<open>\<open>value[key]\<close> for a string \<open>key\<close>: only a dict can be indexed by a string.\<close>

fun getitem_str :: "json \<Rightarrow> pystr \<Rightarrow> py_error + json" where
  "getitem_str (JObj kvs) key = (case map_of kvs key of None \<Rightarrow> Inl KeyError | Some v \<Rightarrow> Inr v)"
| "getitem_str _ key = Inl TypeError"

text \<open>\<open>value[0]\<close>: the first element of a list, the first character of a string; a
  dict parsed from JSON has string keys only, so \<open>0\<close> is never among them.\<close>

fun getitem_0 :: "json \<Rightarrow> py_error + json" where
  "getitem_0 (JArr []) = Inl IndexError"
| "getitem_0 (JArr (x # xs)) = Inr x"
| "getitem_0 (JStr []) = Inl IndexError"
| "getitem_0 (JStr (c # cs)) = Inr (JStr [c])"
| "getitem_0 (JObj kvs) = Inl KeyError"
| "getitem_0 _ = Inl TypeError"

text \<open>Sequencing of steps that may raise: the first exception ends the chain.\<close>

definition and_then :: "py_error + 'a \<Rightarrow> ('a \<Rightarrow> py_error + 'b) \<Rightarrow> py_error + 'b" where
  "and_then r f = (case r of Inl e \<Rightarrow> Inl e | Inr v \<Rightarrow> f v)"

text \<open>\<open>str(n)\<close> of an integer, as an f-string renders it.\<close>

fun str_of_nat :: "nat \<Rightarrow> pystr" where
  "str_of_nat n = (if n < 10 then [48 + n] else str_of_nat (n div 10) @ [48 + n mod 10])"

declare str_of_nat.simps [simp del]

definition str_of_int :: "int \<Rightarrow> pystr" where
  "str_of_int i = (if i < 0 then 0x2D # str_of_nat (nat (- i)) else str_of_nat (nat i))"

text \<open>\<open>sep.join(items)\<close>.\<close>

fun str_join :: "pystr \<Rightarrow> pystr list \<Rightarrow> pystr" where
  "str_join sep [] = []"
| "str_join sep [x] = x"
| "str_join sep (x # y # ys) = x @ sep @ str_join sep (y # ys)"

text \<open>
  What a handler does to the outside, in the order it does it: log records (the
  fixed part of the message and the value interpolated into it), statements
  executed on the store, the request to the generation service, messages to the
  chat, the steps of \<open>run\<close>, and an exception that leaves the handler.
\<close>

datatype log_level = WARNING | ERROR | INFO

datatype interpolated = No_value | Raised py_error | Parsed_body json | Status_and_text int pystr

datatype statement =
    Insert_or_replace_user | Insert_ticket | Count_users | Count_open_tickets | Count_tickets_today

datatype parse_mode = Plain | MARKDOWN

type_synonym keyboard = "(pystr \<times> pystr) list"

datatype action =
    Log log_level pystr interpolated
  | Execute statement
  | Post_request
  | Reply_text json keyboard parse_mode
  | Edit_message_text pystr
  | Answer_callback_query
  | Send_typing
  | Build_application "pystr option"
  | Setup_handlers
  | Run_polling
  | Raises py_error

section \<open>Configuration and the outside world\<close>

text \<open>
  \<open>__init__\<close> (lines 35-37) reads the environment: \<open>os.getenv\<close> gives a string
  or \<open>None\<close>; \<open>ADMIN_IDS\<close> is the list of the integers it parsed.
\<close>

record config =
  BOT_TOKEN :: "pystr option"
  GEMINI_API_KEY :: "pystr option"
  ADMIN_IDS :: "int list"

text \<open>\<open>not value\<close> on such a setting: true of \<open>None\<close> and of the empty string.\<close>

fun not_set :: "pystr option \<Rightarrow> bool" where
  "not_set None = True"
| "not_set (Some s) = (s = [])"

text \<open>
  The reaction of the generation service to the one request of \<open>_call_gemini\<close>:
  the request raises, or a response arrives, with its status and with what
  \<open>response.json()\<close> and \<open>response.text()\<close> give when awaited.
\<close>

record http_response =
  status :: int
  json_body :: "py_error + json"
  text_body :: "py_error + pystr"

datatype http_outcome = Post_raises py_error | Responds http_response

text \<open>
  What one update finds outside the bot: the value of \<open>datetime.now()\<close>, the
  clock of the store (\<open>CURRENT_TIMESTAMP\<close> and \<open>date("now")\<close>, in seconds), the
  result of \<open>strftime\<close> on the former, and the reaction of the generation service.
\<close>

record env =
  py_now :: nat
  sql_now :: nat
  now_text :: pystr
  gemini :: http_outcome

definition sql_date :: "nat \<Rightarrow> nat" where
  "sql_date t = t div 86400"

section \<open>The generation client\<close>

definition candidates_key :: pystr where "candidates_key = ascii ''candidates''"
definition content_key :: pystr where "content_key = ascii ''content''"
definition parts_key :: pystr where "parts_key = ascii ''parts''"
definition text_key :: pystr where "text_key = ascii ''text''"

text \<open>Line 165: \<open>'candidates' in result and result['candidates']\<close>.\<close>

definition has_candidates :: "json \<Rightarrow> py_error + bool" where
  "has_candidates result =
     and_then (py_in candidates_key result) (\<lambda>present.
       if present then and_then (getitem_str result candidates_key) (\<lambda>c. Inr (truthy c))
       else Inr False)"

text \<open>Line 166: \<open>result['candidates'][0]['content']['parts'][0]['text']\<close>.\<close>

definition first_candidate_text :: "json \<Rightarrow> py_error + json" where
  "first_candidate_text result =
     and_then (getitem_str result candidates_key) (\<lambda>candidates.
     and_then (getitem_0 candidates) (\<lambda>candidate.
     and_then (getitem_str candidate content_key) (\<lambda>content.
     and_then (getitem_str content parts_key) (\<lambda>parts.
     and_then (getitem_0 parts) (\<lambda>part.
     getitem_str part text_key)))))"

text \<open>
  \<open>_call_gemini\<close> (lines 142-173). The request itself (URL, prompt, generation
  parameters) decides nothing below; the reaction to it is the argument \<open>outcome\<close>.
\<close>

definition call_gemini ::
  "(pystr \<Rightarrow> pystr) \<Rightarrow> pystr \<Rightarrow> http_outcome \<Rightarrow> action list \<times> (py_error + json)" where
  "call_gemini lower user_message outcome =
     (case outcome of
        Post_raises e \<Rightarrow> ([Post_request], Inl e)
      | Responds response \<Rightarrow>
          if status response = 200 then
            (case json_body response of
               Inl e \<Rightarrow> ([Post_request], Inl e)
             | Inr result \<Rightarrow>
                 (case has_candidates result of
                    Inl e \<Rightarrow> ([Post_request], Inl e)
                  | Inr True \<Rightarrow> ([Post_request], first_candidate_text result)
                  | Inr False \<Rightarrow>
                      ([Post_request, Log ERROR log_format_error (Parsed_body result)],
                       Inr (JStr (get_fallback_response lower user_message)))))
          else
            (case text_body response of
               Inl e \<Rightarrow> ([Post_request], Inl e)
             | Inr error_text \<Rightarrow>
                 ([Post_request,
                   Log ERROR log_status_error (Status_and_text (status response) error_text)],
                  Inr (JStr (get_fallback_response lower user_message)))))"

text \<open>\<open>get_ai_response\<close> (lines 112-140).\<close>

definition get_ai_response ::
  "config \<Rightarrow> (pystr \<Rightarrow> pystr) \<Rightarrow> pystr \<Rightarrow> http_outcome \<Rightarrow> action list \<times> (py_error + json)" where
  "get_ai_response cfg lower user_message outcome =
     (if not_set (GEMINI_API_KEY cfg) then
        ([Log WARNING log_no_key_fallback No_value],
         Inr (JStr (get_fallback_response lower user_message)))
      else
        (case call_gemini lower user_message outcome of
           (acts, Inl e) \<Rightarrow>
             if is_Exception e then
               (acts @ [Log ERROR log_gemini_exception (Raised e)],
                Inr (JStr (get_fallback_response lower user_message)))
             else (acts, Inl e)
         | (acts, Inr answer) \<Rightarrow> (acts, Inr answer)))"

text \<open>
  The failures of the call as the specification lists them: the request or the
  reading of the body raises an exception (one that \<open>except Exception\<close> catches),
  the status is not 200, or the body has no candidates: it is no object, has no
  key \<open>candidates\<close>, or holds under it an empty list (or another value that counts
  as false).
\<close>

fun no_candidates :: "json \<Rightarrow> bool" where
  "no_candidates (JObj kvs) =
     (case map_of kvs candidates_key of None \<Rightarrow> True | Some c \<Rightarrow> \<not> truthy c)"
| "no_candidates _ = True"

fun failed_call :: "http_outcome \<Rightarrow> bool" where
  "failed_call (Post_raises e) = is_Exception e"
| "failed_call (Responds response) =
     (if status response = 200 then
        (case json_body response of Inl e \<Rightarrow> is_Exception e | Inr result \<Rightarrow> no_candidates result)
      else
        (case text_body response of Inl e \<Rightarrow> is_Exception e | Inr error_text \<Rightarrow> True))"

section \<open>The store\<close>

text \<open>
  The tables \<open>users\<close> and \<open>tickets\<close> of \<open>init_db\<close> (lines 75-97), a row of each
  as a record with the table's columns. \<open>tickets_seq\<close> is the counter SQLite keeps
  for an \<open>AUTOINCREMENT\<close> key: the largest id the table has ever given out. The
  table \<open>stats\<close> is created and never read or written, and is left out. The model
  follows the executions in which the statements succeed: ids are integers
  without the bound of a 64-bit column, which the ids of Telegram users respect
  and ticket ids, counted up from 1, do not reach. A time is a natural number, the
  seconds of the clock that gave it.
\<close>

record users_row =
  u_id :: int
  u_username :: "pystr option"
  u_first_name :: pystr
  u_last_name :: "pystr option"
  u_created_at :: nat
  u_last_activity :: nat

record tickets_row =
  t_id :: int
  t_user_id :: int
  t_message :: pystr
  t_status :: pystr
  t_created_at :: nat
  t_resolved_at :: "nat option"
  t_category :: pystr

record store =
  users :: "users_row list"
  tickets :: "tickets_row list"
  tickets_seq :: int

text \<open>The store \<open>init_db\<close> creates when the file is new.\<close>

definition empty_store :: store where
  "empty_store = \<lparr>users = [], tickets = [], tickets_seq = 0\<rparr>"

text \<open>The sender of an update (\<open>update.effective_user\<close>).\<close>

record tg_user =
  tg_id :: int
  tg_username :: "pystr option"
  tg_first_name :: pystr
  tg_last_name :: "pystr option"

text \<open>
  \<open>save_user\<close> (lines 198-209): \<open>INSERT OR REPLACE\<close> with the columns id,
  username, first_name, last_name and last_activity. A row with the same primary
  key is deleted and the new row inserted; \<open>created_at\<close> is not among the columns
  given, so the new row takes the column's default, \<open>CURRENT_TIMESTAMP\<close>.
\<close>

definition save_user :: "env \<Rightarrow> tg_user \<Rightarrow> store \<Rightarrow> store" where
  "save_user e user st =
     st\<lparr>users :=
          filter (\<lambda>r. u_id r \<noteq> tg_id user) (users st) @
          [\<lparr>u_id = tg_id user,
            u_username = tg_username user,
            u_first_name = tg_first_name user,
            u_last_name = tg_last_name user,
            u_created_at = sql_now e,
            u_last_activity = py_now e\<rparr>]\<rparr>"

definition status_open :: pystr where "status_open = ascii ''open''"
definition general :: pystr where "general = ascii ''general''"

text \<open>
  \<open>create_ticket\<close> (lines 211-225): \<open>INSERT\<close> with the columns user_id, message
  and category; the id is the store's (one more than the largest id ever used),
  status and created_at take their defaults, resolved_at is NULL. The result is
  \<open>cursor.lastrowid\<close>. The parameter \<open>category\<close> is \<open>None\<close> when the caller
  leaves it out, and then has its default \<open>'general'\<close>.
\<close>

definition largest_id :: "tickets_row list \<Rightarrow> int" where
  "largest_id rows = fold (\<lambda>r m. max (t_id r) m) rows 0"

definition create_ticket :: "env \<Rightarrow> int \<Rightarrow> pystr \<Rightarrow> pystr option \<Rightarrow> store \<Rightarrow> int \<times> store" where
  "create_ticket e user_id message category st =
     (let ticket_id = max (tickets_seq st) (largest_id (tickets st)) + 1 in
      (ticket_id,
       st\<lparr>tickets :=
            tickets st @
            [\<lparr>t_id = ticket_id,
              t_user_id = user_id,
              t_message = message,
              t_status = status_open,
              t_created_at = sql_now e,
              t_resolved_at = None,
              t_category = (case category of None \<Rightarrow> general | Some c \<Rightarrow> c)\<rparr>],
          tickets_seq := ticket_id\<rparr>))"

text \<open>Successive calls of \<open>create_ticket\<close>: the ids returned, in order, and the
  store left behind.\<close>

fun create_tickets :: "(env \<times> int \<times> pystr \<times> pystr option) list \<Rightarrow> store \<Rightarrow> int list \<times> store" where
  "create_tickets [] st = ([], st)"
| "create_tickets ((e, user_id, message, category) # calls) st =
     (let (ticket_id, st') = create_ticket e user_id message category st;
          (ids, st'') = create_tickets calls st'
      in (ticket_id # ids, st''))"

section \<open>The handlers\<close>

definition schedule_data :: pystr where "schedule_data = ascii ''schedule''"
definition tech_support_data :: pystr where "tech_support_data = ascii ''tech_support''"
definition contacts_data :: pystr where "contacts_data = ascii ''contacts''"
definition faq_data :: pystr where "faq_data = ascii ''faq''"
definition create_ticket_data :: pystr where "create_ticket_data = ascii ''create_ticket''"
definition email_key :: pystr where "email_key = ascii ''email''"

text \<open>
  An update carries its message in one of four fields, and \<open>update.message\<close> is
  the first of them only: it is \<open>None\<close> when the message is an edited one or a
  channel post, and on the press of a button. The handlers registered for
  commands have no filter (lines 382-385), so they receive new and edited
  messages alike; the handler for texts receives all four kinds. A handler that
  reads an attribute of \<open>update.message\<close> when it is \<open>None\<close> raises
  \<open>AttributeError\<close> there, and what it did before stays done.
\<close>

datatype carrier = Message | Edited_message | Channel_post | Edited_channel_post

fun has_message :: "carrier \<Rightarrow> bool" where
  "has_message Message = True"
| "has_message _ = False"

text \<open>\<open>update.message.reply_text(text, reply_markup, parse_mode)\<close>.\<close>

definition reply_text :: "bool \<Rightarrow> json \<Rightarrow> keyboard \<Rightarrow> parse_mode \<Rightarrow> action" where
  "reply_text message_set text markup mode =
     (if message_set then Reply_text text markup mode else Raises AttributeError)"

text \<open>\<open>start\<close> (lines 227-254).\<close>

definition start :: "env \<Rightarrow> bool \<Rightarrow> tg_user \<Rightarrow> store \<Rightarrow> store \<times> action list" where
  "start e message_set user st =
     (save_user e user st,
      [Execute Insert_or_replace_user,
       reply_text message_set (JStr (welcome_head @ tg_first_name user @ welcome_tail))
         [(label_schedule, schedule_data),
          (label_support, tech_support_data),
          (label_contacts, contacts_data),
          (label_faq, faq_data)]
         Plain])"

text \<open>\<open>help_command\<close> (lines 256-272).\<close>

definition help_command :: "bool \<Rightarrow> store \<Rightarrow> store \<times> action list" where
  "help_command message_set st = (st, [reply_text message_set (JStr help_text) [] Plain])"

text \<open>
  \<open>ticket_command\<close> (lines 324-344). It is reached from the command and from the
  button; \<open>from_button\<close> is the test \<open>update.callback_query\<close> of line 341. The
  ticket is inserted before the reply is sent.
\<close>

definition ticket_command ::
  "env \<Rightarrow> bool \<Rightarrow> bool \<Rightarrow> tg_user \<Rightarrow> store \<Rightarrow> store \<times> action list" where
  "ticket_command e from_button message_set user st =
     (let user_id = tg_id user;
          message_text = ticket_placeholder;
          (ticket_id, st') = create_ticket e user_id message_text None st;
          response_text = ticket_reply_head @ str_of_int ticket_id @ ticket_reply_tail
      in (st',
          [Execute Insert_ticket,
           if from_button then Edit_message_text response_text
           else reply_text message_set (JStr response_text) [] Plain]))"

text \<open>
  \<open>get_stats\<close> (lines 347-377): the refusal and the statistics are both sent
  through \<open>update.message\<close>; the three queries come before the latter.
\<close>

definition get_stats :: "config \<Rightarrow> env \<Rightarrow> bool \<Rightarrow> tg_user \<Rightarrow> store \<Rightarrow> store \<times> action list" where
  "get_stats cfg e message_set user st =
     (if tg_id user \<notin> set (ADMIN_IDS cfg) then
        (st, [reply_text message_set (JStr denied_text) [] Plain])
      else
        (let total_users = length (users st);
             open_tickets = length (filter (\<lambda>t. t_status t = status_open) (tickets st));
             today_tickets =
               length (filter (\<lambda>t. sql_date (t_created_at t) = sql_date (sql_now e)) (tickets st));
             stats_text =
               stats_head @ str_of_nat total_users @
               stats_open @ str_of_nat open_tickets @
               stats_today @ str_of_nat today_tickets @
               stats_date @ now_text e @ stats_tail
         in (st,
             [Execute Count_users, Execute Count_open_tickets, Execute Count_tickets_today,
              reply_text message_set (JStr stats_text) [] Plain])))"

text \<open>
  \<open>handle_callback\<close> (lines 274-299). A subscript on the two dictionaries is a
  lookup that raises \<open>KeyError\<close> when the key is missing.
\<close>

definition subscript :: "(pystr \<times> 'v) list \<Rightarrow> pystr \<Rightarrow> py_error + 'v" where
  "subscript d key = (case map_of d key of None \<Rightarrow> Inl KeyError | Some v \<Rightarrow> Inr v)"

definition edit_or_raise :: "py_error + pystr \<Rightarrow> action" where
  "edit_or_raise r = (case r of Inl e \<Rightarrow> Raises e | Inr t \<Rightarrow> Edit_message_text t)"

definition contact_entry :: "pystr \<Rightarrow> py_error + pystr" where
  "contact_entry key = and_then (subscript knowledge_base key_contacts) (\<lambda>d. subscript d key)"

definition handle_callback :: "env \<Rightarrow> pystr \<Rightarrow> tg_user \<Rightarrow> store \<Rightarrow> store \<times> action list" where
  "handle_callback e data user st =
     (if data = schedule_data then
        (st, [Answer_callback_query,
              edit_or_raise (and_then (subscript faq key_schedule) (\<lambda>schedule_text.
                Inr (schedule_head @ schedule_text)))])
      else if data = tech_support_data then
        (st, [Answer_callback_query,
              edit_or_raise (and_then (subscript faq key_quality) (\<lambda>tech_text.
                Inr (support_head @ tech_text)))])
      else if data = contacts_data then
        (st, [Answer_callback_query,
              edit_or_raise (and_then (contact_entry key_phone) (\<lambda>phone.
                and_then (contact_entry email_key) (\<lambda>email.
                and_then (contact_entry key_site) (\<lambda>site.
                Inr (contacts_head @ phone @ contacts_email @ email @ contacts_site @ site)))))])
      else if data = faq_data then
        (let faq_items = map (\<lambda>(q, a). faq_question_mark @ q @ faq_answer_mark @ a) faq;
             faq_text = str_join faq_separator faq_items
         in (st, [Answer_callback_query, Edit_message_text (faq_head @ faq_text)]))
      else if data = create_ticket_data then
        (let (st', acts) = ticket_command e True False user st
         in (st', Answer_callback_query # acts))
      else (st, [Answer_callback_query]))"

text \<open>
  \<open>handle_message\<close> (lines 302-322). The sender is \<open>update.effective_user\<close>,
  which is \<open>None\<close> for a channel post: \<open>save_user\<close> then raises on \<open>user.id\<close>
  before its statement is executed. The text is read from \<open>update.message\<close>
  (line 307), after the user is saved.
\<close>

definition handle_message ::
  "config \<Rightarrow> (pystr \<Rightarrow> pystr) \<Rightarrow> env \<Rightarrow> pystr \<Rightarrow> bool \<Rightarrow> tg_user option \<Rightarrow> store \<Rightarrow>
   store \<times> action list" where
  "handle_message cfg lower e message_text message_set sender st =
     (case sender of
        None \<Rightarrow> (st, [Raises AttributeError])
      | Some user \<Rightarrow>
          if \<not> message_set then
            (save_user e user st, [Execute Insert_or_replace_user, Raises AttributeError])
          else
            (let user_message = message_text;
                 (acts, response) = get_ai_response cfg lower user_message (gemini e)
             in (save_user e user st,
                 [Execute Insert_or_replace_user, Send_typing] @ acts @
                 [case response of
                    Inl err \<Rightarrow> Raises err
                  | Inr answer \<Rightarrow>
                      Reply_text answer
                        [(label_contact_support, contacts_data),
                         (label_create_ticket, create_ticket_data)]
                        MARKDOWN])))"

text \<open>
  An update as the handlers registered by \<open>setup_handlers\<close> (lines 379-391) tell
  them apart: a command with the name the library matched, the field that
  carries it and its sender; the press of a button with its callback data; a
  text that is no command, with the field that carries it and its sender, if it
  has one; and any other update, which no handler takes. A command that none of
  the four handlers is registered for is dropped: the text handler excludes
  commands.
\<close>

datatype update =
    Command pystr carrier tg_user
  | Callback_query pystr tg_user
  | Text_message pystr carrier "tg_user option"
  | Other_update

definition handle_update ::
  "config \<Rightarrow> (pystr \<Rightarrow> pystr) \<Rightarrow> env \<Rightarrow> update \<Rightarrow> store \<Rightarrow> store \<times> action list" where
  "handle_update cfg lower e u st =
     (case u of
        Command name field user \<Rightarrow>
          if name = ascii ''start'' then start e (has_message field) user st
          else if name = ascii ''help'' then help_command (has_message field) st
          else if name = ascii ''ticket'' then ticket_command e False (has_message field) user st
          else if name = ascii ''stats'' then get_stats cfg e (has_message field) user st
          else (st, [])
      | Callback_query data user \<Rightarrow> handle_callback e data user st
      | Text_message message_text field sender \<Rightarrow>
          handle_message cfg lower e message_text (has_message field) sender st
      | Other_update \<Rightarrow> (st, []))"

text \<open>The bot at work: the updates of a run, each with what it finds outside.\<close>

fun handle_updates ::
  "config \<Rightarrow> (pystr \<Rightarrow> pystr) \<Rightarrow> (env \<times> update) list \<Rightarrow> store \<Rightarrow> store" where
  "handle_updates cfg lower [] st = st"
| "handle_updates cfg lower ((e, u) # rest) st =
     handle_updates cfg lower rest (fst (handle_update cfg lower e u st))"

text \<open>\<open>run\<close> (lines 412-435).\<close>

definition run :: "config \<Rightarrow> action list" where
  "run cfg =
     (if not_set (BOT_TOKEN cfg) then [Log ERROR log_no_bot_token No_value]
      else if not_set (GEMINI_API_KEY cfg) then [Log ERROR log_no_api_key No_value]
      else [Build_application (BOT_TOKEN cfg), Setup_handlers, Log INFO log_started No_value,
            Run_polling])"

section \<open>Concrete inputs\<close>

definition mixed_case_complaint :: pystr where
  \<comment> \<open>Plokho vidno RASPISANIE: a quality word and, in capitals, a schedule word\<close>
  "mixed_case_complaint =
    [0x41F, 0x43B, 0x43E, 0x445, 0x43E, 0x20, 0x432, 0x438, 0x434, 0x43D, 0x43E, 0x20,
     0x420, 0x410, 0x421, 0x41F, 0x418, 0x421, 0x410, 0x41D, 0x418, 0x415]"

definition stalling_channel :: pystr where
  \<comment> \<open>kanal tormozit: a setup word and a quality word\<close>
  "stalling_channel =
    [0x43A, 0x430, 0x43D, 0x430, 0x43B, 0x20, 0x442, 0x43E, 0x440, 0x43C, 0x43E, 0x437,
     0x438, 0x442]"

definition find_phone :: pystr where
  \<comment> \<open>kak najti telefon: a setup word and a contact word\<close>
  "find_phone =
    [0x43A, 0x430, 0x43A, 0x20, 0x43D, 0x430, 0x439, 0x442, 0x438, 0x20, 0x442, 0x435,
     0x43B, 0x435, 0x444, 0x43E, 0x43D]"

definition contact_for_advert :: pystr where
  \<comment> \<open>kontakt: reklama: a contact word and an advertising word\<close>
  "contact_for_advert =
    [0x43A, 0x43E, 0x43D, 0x442, 0x430, 0x43A, 0x442, 0x3A, 0x20, 0x440, 0x435, 0x43A,
     0x43B, 0x430, 0x43C, 0x430]"

definition rounded_quality :: pystr where
  \<comment> \<open>kachestvo, the quality word, written with the rounded ve U+1C80 for its ve\<close>
  "rounded_quality =
    [0x43A, 0x430, 0x447, 0x435, 0x441, 0x442, 0x1C80, 0x43E]"

definition shouted_quality :: pystr where
  \<comment> \<open>KACHESTVO, in capitals\<close>
  "shouted_quality =
    [0x41A, 0x410, 0x427, 0x415, 0x421, 0x422, 0x412, 0x41E]"

definition plain_hello :: pystr where
  \<comment> \<open>privet: no keyword occurs in it\<close>
  "plain_hello =
    [0x43F, 0x440, 0x438, 0x432, 0x435, 0x442]"

definition shouted_advert :: pystr where
  \<comment> \<open>REKLAMA, in capitals\<close>
  "shouted_advert =
    [0x420, 0x415, 0x41A, 0x41B, 0x410, 0x41C, 0x410]"

definition quiet_advert :: pystr where
  \<comment> \<open>reklama, in small letters\<close>
  "quiet_advert =
    [0x440, 0x435, 0x43A, 0x43B, 0x430, 0x43C, 0x430]"


definition configured :: config where
  \<comment> \<open>both credentials present, one administrator\<close>
  "configured = \<lparr>BOT_TOKEN = Some (ascii ''token''), GEMINI_API_KEY = Some (ascii ''key''),
                  ADMIN_IDS = [1001]\<rparr>"

definition keyless :: config where
  \<comment> \<open>no generation-service credential\<close>
  "keyless = \<lparr>BOT_TOKEN = Some (ascii ''token''), GEMINI_API_KEY = None, ADMIN_IDS = [1001]\<rparr>"

definition empty_candidates :: http_outcome where
  \<comment> \<open>status 200 with the body \<open>{"candidates": []}\<close>\<close>
  "empty_candidates =
     Responds \<lparr>status = 200, json_body = Inr (JObj [(candidates_key, JArr [])]),
               text_body = Inr []\<rparr>"

definition viewer :: tg_user where
  "viewer = \<lparr>tg_id = 42, tg_username = Some (ascii ''viewer''), tg_first_name = ascii ''Aigul'',
              tg_last_name = None\<rparr>"

definition first_visit :: env where
  "first_visit = \<lparr>py_now = 1000, sql_now = 1000, now_text = [], gemini = empty_candidates\<rparr>"

definition later_visit :: env where
  "later_visit = \<lparr>py_now = 5000, sql_now = 5000, now_text = [], gemini = empty_candidates\<rparr>"

section \<open>Properties of strings\<close>

lemma str_contains_iff: "str_contains word s \<longleftrightarrow> (\<exists>ps ss. s = ps @ word @ ss)"
proof (induction s)
  case Nil
  then show ?case by auto
next
  case (Cons c cs)
  show ?case
  proof
    assume "str_contains word (c # cs)"
    then consider "prefix word (c # cs)" | "str_contains word cs" by auto
    then show "\<exists>ps ss. c # cs = ps @ word @ ss"
    proof cases
      case 1
      then obtain ss where "c # cs = word @ ss" by (auto simp: prefix_def)
      then have "c # cs = [] @ word @ ss" by simp
      then show ?thesis by blast
    next
      case 2
      with Cons.IH obtain ps ss where "cs = ps @ word @ ss" by blast
      then have "c # cs = (c # ps) @ word @ ss" by simp
      then show ?thesis by blast
    qed
  next
    assume "\<exists>ps ss. c # cs = ps @ word @ ss"
    then obtain ps ss where eq: "c # cs = ps @ word @ ss" by blast
    show "str_contains word (c # cs)"
    proof (cases ps)
      case Nil
      with eq have "prefix word (c # cs)" by (simp add: prefix_def)
      then show ?thesis by simp
    next
      case (Cons p ps')
      with eq have "cs = ps' @ word @ ss" by simp
      with Cons.IH have "str_contains word cs" by blast
      then show ?thesis by simp
    qed
  qed
qed

lemma lower_cp_idem: "lower_cp (lower_cp c) = lower_cp c"
  unfolding lower_cp_def by (auto split: if_splits)

lemma str_lower_idem: "str_lower (str_lower s) = str_lower s"
  by (simp add: str_lower_def lower_cp_idem)

section \<open>The fallback responder: order, totality, case\<close>

lemmas word_defs =
  schedule_words_def quality_words_def setup_words_def contact_words_def advert_words_def

lemma answers_nonempty:
  "schedule_answer \<noteq> []" "quality_answer \<noteq> []" "setup_answer \<noteq> []"
  "contact_answer \<noteq> []" "advert_answer \<noteq> []" "generic_greeting \<noteq> []"
  by (simp_all add: schedule_answer_def quality_answer_def setup_answer_def
      contact_answer_def advert_answer_def generic_greeting_def)

text \<open>
  C1. For every message, \<open>get_fallback_response\<close> tests the lowercased message
  against the five keyword lists in the order schedule, quality, channel setup,
  contact, advertising, and returns the answer of the first list that has a word
  occurring in it: \<open>spec_respond\<close> searches the priority table for exactly that.
  When a schedule word occurs the schedule answer is returned, whichever words of
  later lists occur as well; and so down the order, each list deciding when no
  earlier one matches.
\<close>

theorem fallback_priority_order:
  "get_fallback_response lower m = spec_respond lower m \<and>
   (any_word_in schedule_words (lower m) \<longrightarrow>
      get_fallback_response lower m = schedule_answer) \<and>
   (\<not> any_word_in schedule_words (lower m) \<and> any_word_in quality_words (lower m) \<longrightarrow>
      get_fallback_response lower m = quality_answer) \<and>
   (\<not> any_word_in schedule_words (lower m) \<and> \<not> any_word_in quality_words (lower m) \<and>
    any_word_in setup_words (lower m) \<longrightarrow>
      get_fallback_response lower m = setup_answer) \<and>
   (\<not> any_word_in schedule_words (lower m) \<and> \<not> any_word_in quality_words (lower m) \<and>
    \<not> any_word_in setup_words (lower m) \<and> any_word_in contact_words (lower m) \<longrightarrow>
      get_fallback_response lower m = contact_answer) \<and>
   (\<not> any_word_in schedule_words (lower m) \<and> \<not> any_word_in quality_words (lower m) \<and>
    \<not> any_word_in setup_words (lower m) \<and> \<not> any_word_in contact_words (lower m) \<and>
    any_word_in advert_words (lower m) \<longrightarrow>
      get_fallback_response lower m = advert_answer)"
  by (simp add: get_fallback_response_def spec_respond_def priority_table_def Let_def)

lemmas run_words = any_word_in_def word_defs str_lower_def lower_cp_def

theorem fallback_priority_order_witness:
  "any_word_in quality_words (str_lower mixed_case_complaint) \<and>
   get_fallback_response str_lower mixed_case_complaint = schedule_answer \<and>
   any_word_in setup_words (str_lower stalling_channel) \<and>
   get_fallback_response str_lower stalling_channel = quality_answer \<and>
   any_word_in contact_words (str_lower find_phone) \<and>
   get_fallback_response str_lower find_phone = setup_answer \<and>
   any_word_in advert_words (str_lower contact_for_advert) \<and>
   get_fallback_response str_lower contact_for_advert = contact_answer \<and>
   get_fallback_response str_lower shouted_advert = advert_answer"
proof -
  have m1: "any_word_in schedule_words (str_lower mixed_case_complaint)"
    "any_word_in quality_words (str_lower mixed_case_complaint)"
    by (simp_all add: run_words mixed_case_complaint_def)
  have m2: "\<not> any_word_in schedule_words (str_lower stalling_channel)"
    "any_word_in quality_words (str_lower stalling_channel)"
    "any_word_in setup_words (str_lower stalling_channel)"
    by (simp_all add: run_words stalling_channel_def)
  have m3: "\<not> any_word_in schedule_words (str_lower find_phone)"
    "\<not> any_word_in quality_words (str_lower find_phone)"
    "any_word_in setup_words (str_lower find_phone)"
    "any_word_in contact_words (str_lower find_phone)"
    by (simp_all add: run_words find_phone_def)
  have m4: "\<not> any_word_in schedule_words (str_lower contact_for_advert)"
    "\<not> any_word_in quality_words (str_lower contact_for_advert)"
    "\<not> any_word_in setup_words (str_lower contact_for_advert)"
    "any_word_in contact_words (str_lower contact_for_advert)"
    "any_word_in advert_words (str_lower contact_for_advert)"
    by (simp_all add: run_words contact_for_advert_def)
  have m5: "\<not> any_word_in schedule_words (str_lower shouted_advert)"
    "\<not> any_word_in quality_words (str_lower shouted_advert)"
    "\<not> any_word_in setup_words (str_lower shouted_advert)"
    "\<not> any_word_in contact_words (str_lower shouted_advert)"
    "any_word_in advert_words (str_lower shouted_advert)"
    by (simp_all add: run_words shouted_advert_def)
  from fallback_priority_order [of str_lower mixed_case_complaint] m1
  have a1: "get_fallback_response str_lower mixed_case_complaint = schedule_answer" by blast
  from fallback_priority_order [of str_lower stalling_channel] m2
  have a2: "get_fallback_response str_lower stalling_channel = quality_answer" by blast
  from fallback_priority_order [of str_lower find_phone] m3
  have a3: "get_fallback_response str_lower find_phone = setup_answer" by blast
  from fallback_priority_order [of str_lower contact_for_advert] m4
  have a4: "get_fallback_response str_lower contact_for_advert = contact_answer" by blast
  from fallback_priority_order [of str_lower shouted_advert] m5
  have a5: "get_fallback_response str_lower shouted_advert = advert_answer" by blast
  from m1 m2 m3 m4 a1 a2 a3 a4 a5 show ?thesis by (intro conjI)
qed

text \<open>
  C7. The fallback responder is total and never returns the empty string: for
  every message its result is one of the six canned strings, none of which is
  empty, and when no word of the five keyword lists occurs in the lowercased
  message the result is the generic greeting.
\<close>

theorem fallback_total_nonempty:
  "get_fallback_response lower m \<noteq> [] \<and>
   get_fallback_response lower m \<in>
     {schedule_answer, quality_answer, setup_answer, contact_answer, advert_answer,
      generic_greeting} \<and>
   (\<not> any_word_in schedule_words (lower m) \<and> \<not> any_word_in quality_words (lower m) \<and>
    \<not> any_word_in setup_words (lower m) \<and> \<not> any_word_in contact_words (lower m) \<and>
    \<not> any_word_in advert_words (lower m)
    \<longrightarrow> get_fallback_response lower m = generic_greeting)"
  by (simp add: get_fallback_response_def Let_def answers_nonempty)

theorem fallback_total_nonempty_witness:
  "\<not> any_word_in schedule_words (str_lower plain_hello) \<and>
   \<not> any_word_in quality_words (str_lower plain_hello) \<and>
   \<not> any_word_in setup_words (str_lower plain_hello) \<and>
   \<not> any_word_in contact_words (str_lower plain_hello) \<and>
   \<not> any_word_in advert_words (str_lower plain_hello) \<and>
   get_fallback_response str_lower plain_hello = generic_greeting \<and>
   get_fallback_response str_lower plain_hello \<noteq> []"
proof -
  have n: "\<not> any_word_in schedule_words (str_lower plain_hello)"
    "\<not> any_word_in quality_words (str_lower plain_hello)"
    "\<not> any_word_in setup_words (str_lower plain_hello)"
    "\<not> any_word_in contact_words (str_lower plain_hello)"
    "\<not> any_word_in advert_words (str_lower plain_hello)"
    by (simp_all add: any_word_in_def word_defs str_lower_def lower_cp_def plain_hello_def)
  from fallback_total_nonempty [of str_lower plain_hello] n show ?thesis by blast
qed

subsection \<open>Letter case in the common alphabets\<close>

lemma small_latin:
  "0x41 \<le> d \<Longrightarrow> d \<le> 0x5A \<Longrightarrow>
     upper_cp (d + 32) = d \<and> lower_cp d = d + 32 \<and> lower_cp (d + 32) = d + 32"
  by (simp add: upper_cp_def lower_cp_def)

lemma small_russian:
  "0x410 \<le> d \<Longrightarrow> d \<le> 0x42F \<Longrightarrow>
     upper_cp (d + 32) = d \<and> lower_cp d = d + 32 \<and> lower_cp (d + 32) = d + 32"
  by (simp add: upper_cp_def lower_cp_def)

lemma small_neighbours:
  "0x400 \<le> d \<Longrightarrow> d \<le> 0x40F \<Longrightarrow>
     upper_cp (d + 80) = d \<and> lower_cp d = d + 80 \<and> lower_cp (d + 80) = d + 80"
  by (simp add: upper_cp_def lower_cp_def)

lemma small_kazakh:
  "0x48A \<le> d \<Longrightarrow> d \<le> 0x4BE \<Longrightarrow> even d \<Longrightarrow>
     upper_cp (d + 1) = d \<and> lower_cp d = d + 1 \<and> lower_cp (d + 1) = d + 1"
  by (simp add: upper_cp_def lower_cp_def)

lemma small_kazakh_too:
  "0x4D0 \<le> d \<Longrightarrow> d \<le> 0x4FE \<Longrightarrow> even d \<Longrightarrow>
     upper_cp (d + 1) = d \<and> lower_cp d = d + 1 \<and> lower_cp (d + 1) = d + 1"
  by (simp add: upper_cp_def lower_cp_def)

lemma capital_latin: "c \<le> 0x7F \<Longrightarrow> \<not> (0x61 \<le> c \<and> c \<le> 0x7A) \<Longrightarrow> upper_cp c = c"
  by (auto simp: upper_cp_def)

lemma capital_russian: "0x400 \<le> c \<Longrightarrow> c \<le> 0x42F \<Longrightarrow> upper_cp c = c"
  by (simp add: upper_cp_def)

lemma capital_kazakh: "0x48A \<le> c \<Longrightarrow> c \<le> 0x4FF \<Longrightarrow> even c \<Longrightarrow> upper_cp c = c"
  by (simp add: upper_cp_def)

lemma round_trip_latin:
  assumes "c \<le> 0x7F"
  shows "lower_cp (upper_cp c) = lower_cp c"
proof (cases "0x61 \<le> c \<and> c \<le> 0x7A")
  case True
  then obtain d where d: "c = d + 32" by (auto simp: le_iff_add)
  with True have "0x41 \<le> d" "d \<le> 0x5A" by simp_all
  then show ?thesis using small_latin [of d] by (simp add: d)
next
  case False
  with assms show ?thesis by (simp add: capital_latin)
qed

lemma round_trip_russian:
  assumes "0x400 \<le> c" "c \<le> 0x45F"
  shows "lower_cp (upper_cp c) = lower_cp c"
proof -
  consider "c \<le> 0x42F" | "0x430 \<le> c" "c \<le> 0x44F" | "0x450 \<le> c" by linarith
  then show ?thesis
  proof cases
    case 1
    with assms show ?thesis by (simp add: capital_russian)
  next
    case 2
    then obtain d where d: "c = d + 32" by (auto simp: le_iff_add)
    with 2 have "0x410 \<le> d" "d \<le> 0x42F" by simp_all
    then show ?thesis using small_russian [of d] by (simp add: d)
  next
    case 3
    then obtain d where d: "c = d + 80" by (auto simp: le_iff_add)
    with 3 assms have "0x400 \<le> d" "d \<le> 0x40F" by simp_all
    then show ?thesis using small_neighbours [of d] by (simp add: d)
  qed
qed

lemma round_trip_kazakh:
  assumes "0x48A \<le> c" "c \<le> 0x4BF"
  shows "lower_cp (upper_cp c) = lower_cp c"
proof (cases "even c")
  case True
  with assms show ?thesis by (simp add: capital_kazakh)
next
  case False
  then obtain d where d: "c = d + 1" by (auto elim: oddE)
  with False assms have "0x48A \<le> d" "d \<le> 0x4BE" "even d" by auto
  then show ?thesis using small_kazakh [of d] by (simp add: d)
qed

lemma round_trip_kazakh_too:
  assumes "0x4D0 \<le> c" "c \<le> 0x4FF"
  shows "lower_cp (upper_cp c) = lower_cp c"
proof (cases "even c")
  case True
  with assms show ?thesis by (simp add: capital_kazakh)
next
  case False
  then obtain d where d: "c = d + 1" by (auto elim: oddE)
  with False assms have "0x4D0 \<le> d" "d \<le> 0x4FE" "even d" by auto
  then show ?thesis using small_kazakh_too [of d] by (simp add: d)
qed

lemma common_round_trip: "common_cp c \<Longrightarrow> lower_cp (upper_cp c) = lower_cp c"
  unfolding common_cp_def
  using round_trip_latin round_trip_russian round_trip_kazakh round_trip_kazakh_too by blast

lemma case_variant_same_lower:
  "case_variant s t \<Longrightarrow> list_all common_cp s \<Longrightarrow> list_all common_cp t \<Longrightarrow>
     str_lower t = str_lower s"
  unfolding case_variant_def
proof (induction rule: list_all2_induct)
  case Nil
  show ?case by (simp add: str_lower_def)
next
  case (Cons c s d t)
  from Cons.prems have cc: "common_cp c" and cd: "common_cp d"
    and rest: "list_all common_cp s" "list_all common_cp t" by simp_all
  note rt = common_round_trip [OF cc] common_round_trip [OF cd] lower_cp_idem [of c]
    lower_cp_idem [of d]
  from Cons.hyps(1) consider "d = c" | "d = lower_cp c" | "d = upper_cp c"
    | "c = lower_cp d" | "c = upper_cp d" by blast
  then have "lower_cp d = lower_cp c"
  proof cases
    case 1 then show ?thesis by simp
  next
    case 2 then show ?thesis by (simp only: rt)
  next
    case 3 then show ?thesis by (simp only: rt)
  next
    case 4 then show ?thesis using rt(4) by metis
  next
    case 5 then show ?thesis using rt(2) by metis
  qed
  moreover have "str_lower t = str_lower s" using rest by (rule Cons.IH)
  ultimately show ?case by (simp add: str_lower_def)
qed

text \<open>
  C9, as stated: the fallback responder returns the same string for a message and
  for every variant of it that differs only in letter case. It does not: the
  quality word written with the rounded ve (U+1C80) for its ve contains no
  keyword and gets the greeting, while its uppercase form, the word in common
  capitals, lowercases to the keyword and gets the quality answer.
\<close>

theorem uppercase_changes_answer:
  "str_upper rounded_quality = shouted_quality \<and>
   case_variant rounded_quality shouted_quality \<and>
   get_fallback_response str_lower rounded_quality = generic_greeting \<and>
   get_fallback_response str_lower shouted_quality = quality_answer \<and>
   get_fallback_response str_lower shouted_quality \<noteq>
     get_fallback_response str_lower rounded_quality"
proof -
  have u: "str_upper rounded_quality = shouted_quality"
    by (simp add: str_upper_def upper_cp_def rounded_quality_def shouted_quality_def)
  have v: "case_variant rounded_quality shouted_quality"
    by (simp add: case_variant_def upper_cp_def lower_cp_def rounded_quality_def
        shouted_quality_def)
  have r: "get_fallback_response str_lower rounded_quality = generic_greeting"
    by (simp add: get_fallback_response_def run_words rounded_quality_def)
  have q: "get_fallback_response str_lower shouted_quality = quality_answer"
    by (simp add: get_fallback_response_def run_words shouted_quality_def)
  have d: "quality_answer \<noteq> generic_greeting"
    by (simp add: quality_answer_def generic_greeting_def)
  from u v r q d show ?thesis by simp
qed

text \<open>
  C9, amended: the fallback responder reads its message through \<open>lower\<close> only. A
  message gets the answer of its own lowercase form (lowercasing a lowercased
  string is without effect, as it is for \<open>str.lower\<close>), and two messages with the
  same lowercase form get the same answer. Hence a message written in Latin,
  Russian and Kazakh letters gets the same answer as every variant of it in
  those letters that differs only in letter case.
\<close>

theorem fallback_reads_lowercase:
  "(lower (lower m) = lower m \<longrightarrow>
      get_fallback_response lower (lower m) = get_fallback_response lower m) \<and>
   (lower m' = lower m \<longrightarrow>
      get_fallback_response lower m' = get_fallback_response lower m) \<and>
   (case_variant m m' \<and> list_all common_cp m \<and> list_all common_cp m' \<longrightarrow>
      get_fallback_response str_lower m' = get_fallback_response str_lower m)"
proof -
  have "get_fallback_response str_lower m' = get_fallback_response str_lower m"
    if "case_variant m m'" "list_all common_cp m" "list_all common_cp m'"
  proof -
    from that have "str_lower m' = str_lower m" by (rule case_variant_same_lower)
    then show ?thesis by (simp add: get_fallback_response_def)
  qed
  then show ?thesis by (simp add: get_fallback_response_def)
qed

theorem fallback_reads_lowercase_witness:
  "str_lower (str_lower shouted_advert) = str_lower shouted_advert \<and>
   str_lower quiet_advert = str_lower shouted_advert \<and>
   case_variant shouted_advert quiet_advert \<and>
   list_all common_cp shouted_advert \<and> list_all common_cp quiet_advert \<and>
   quiet_advert \<noteq> shouted_advert \<and>
   get_fallback_response str_lower (str_lower shouted_advert) = advert_answer \<and>
   get_fallback_response str_lower shouted_advert = advert_answer \<and>
   get_fallback_response str_lower quiet_advert = advert_answer"
proof -
  have i: "str_lower (str_lower shouted_advert) = str_lower shouted_advert"
    by (rule str_lower_idem)
  have v: "str_lower quiet_advert = str_lower shouted_advert"
    by (simp add: str_lower_def lower_cp_def quiet_advert_def shouted_advert_def)
  have c: "case_variant shouted_advert quiet_advert"
    by (simp add: case_variant_def lower_cp_def upper_cp_def quiet_advert_def
        shouted_advert_def)
  have k: "list_all common_cp shouted_advert" "list_all common_cp quiet_advert"
    by (simp_all add: common_cp_def quiet_advert_def shouted_advert_def)
  have d: "quiet_advert \<noteq> shouted_advert"
    by (simp add: quiet_advert_def shouted_advert_def)
  have a: "get_fallback_response str_lower quiet_advert = advert_answer"
    by (simp add: get_fallback_response_def run_words quiet_advert_def)
  from fallback_reads_lowercase [of str_lower shouted_advert quiet_advert] i v c k
  have "get_fallback_response str_lower (str_lower shouted_advert) =
      get_fallback_response str_lower shouted_advert"
    and "get_fallback_response str_lower quiet_advert =
      get_fallback_response str_lower shouted_advert"
    by blast+
  with a i v c k d show ?thesis by simp
qed

section \<open>The generation client\<close>

lemma no_candidates_cases:
  "no_candidates result \<Longrightarrow>
     has_candidates result = Inr False \<or> has_candidates result = Inl TypeError"
  by (cases result) (auto simp: has_candidates_def and_then_def split: option.splits)

text \<open>
  C2. For every message: when the call to the generation service fails (the
  status is not 200, the body has no or an empty candidate list, or a network or
  parsing exception is raised), \<open>get_ai_response\<close> returns the fallback
  responder's answer to that message, and returns it as a value: no exception
  reaches the caller.
\<close>

theorem gemini_failure_falls_back:
  "failed_call outcome \<Longrightarrow>
     snd (get_ai_response cfg lower m outcome) = Inr (JStr (get_fallback_response lower m))"
proof (cases "not_set (GEMINI_API_KEY cfg)")
  case True
  then show ?thesis by (simp add: get_ai_response_def)
next
  case False
  assume f: "failed_call outcome"
  show ?thesis
  proof (cases outcome)
    case (Post_raises e)
    with f False show ?thesis by (simp add: get_ai_response_def call_gemini_def)
  next
    case (Responds r)
    show ?thesis
    proof (cases "status r = 200")
      case ok: True
      show ?thesis
      proof (cases "json_body r")
        case (Inl e)
        with f False Responds ok show ?thesis
          by (simp add: get_ai_response_def call_gemini_def)
      next
        case (Inr result)
        with f Responds ok have "no_candidates result" by simp
        then consider "has_candidates result = Inr False" | "has_candidates result = Inl TypeError"
          using no_candidates_cases by blast
        then show ?thesis
        proof cases
          case 1
          with False Responds ok Inr show ?thesis
            by (simp add: get_ai_response_def call_gemini_def)
        next
          case 2
          with False Responds ok Inr show ?thesis
            by (simp add: get_ai_response_def call_gemini_def)
        qed
      qed
    next
      case bad: False
      with f False Responds show ?thesis
        by (cases "text_body r") (simp_all add: get_ai_response_def call_gemini_def)
    qed
  qed
qed

theorem gemini_failure_falls_back_witness:
  "\<not> not_set (GEMINI_API_KEY configured) \<and> failed_call empty_candidates \<and>
   get_ai_response configured str_lower quiet_advert empty_candidates =
     ([Post_request,
       Log ERROR log_format_error (Parsed_body (JObj [(candidates_key, JArr [])]))],
      Inr (JStr advert_answer))"
proof -
  have k: "\<not> not_set (GEMINI_API_KEY configured)"
    by (simp add: configured_def ascii_def)
  have f: "failed_call empty_candidates"
    by (simp add: empty_candidates_def)
  have a: "get_fallback_response str_lower quiet_advert = advert_answer"
    by (simp add: get_fallback_response_def any_word_in_def word_defs str_lower_def
        lower_cp_def quiet_advert_def)
  have c: "has_candidates (JObj [(candidates_key, JArr [])]) = Inr False"
    by (simp add: has_candidates_def and_then_def)
  have t: "fst (get_ai_response configured str_lower quiet_advert empty_candidates) =
      [Post_request,
       Log ERROR log_format_error (Parsed_body (JObj [(candidates_key, JArr [])]))]"
    using k c by (simp add: get_ai_response_def call_gemini_def empty_candidates_def)
  from gemini_failure_falls_back [OF f, of configured str_lower quiet_advert] a
  have "snd (get_ai_response configured str_lower quiet_advert empty_candidates) =
      Inr (JStr advert_answer)" by simp
  with t k f show ?thesis by (simp add: prod_eq_iff)
qed

text \<open>
  C3. For every message: when no generation-service credential is configured
  (\<open>GEMINI_API_KEY\<close> is \<open>None\<close> or empty), \<open>get_ai_response\<close> returns the very
  string \<open>get_fallback_response\<close> returns for that message; it logs the warning
  and sends no request, whatever the service would have answered.
\<close>

theorem no_key_delegates_to_fallback:
  "not_set (GEMINI_API_KEY cfg) \<Longrightarrow>
     get_ai_response cfg lower m outcome =
       ([Log WARNING log_no_key_fallback No_value],
        Inr (JStr (get_fallback_response lower m)))"
  by (simp add: get_ai_response_def)

theorem no_key_delegates_to_fallback_witness:
  "not_set (GEMINI_API_KEY keyless) \<and>
   get_ai_response keyless str_lower mixed_case_complaint empty_candidates =
     ([Log WARNING log_no_key_fallback No_value], Inr (JStr schedule_answer))"
proof -
  have k: "not_set (GEMINI_API_KEY keyless)"
    by (simp add: keyless_def)
  have a: "get_fallback_response str_lower mixed_case_complaint = schedule_answer"
    by (simp add: get_fallback_response_def any_word_in_def word_defs str_lower_def
        lower_cp_def mixed_case_complaint_def)
  from no_key_delegates_to_fallback [OF k, of str_lower mixed_case_complaint empty_candidates] a k
  show ?thesis by simp
qed

section \<open>The store: users\<close>

lemma save_user_one_row:
  "length (filter (\<lambda>r. u_id r = tg_id user) (users (save_user e user st))) = 1"
proof -
  have "filter (\<lambda>r. u_id r = tg_id user) (filter (\<lambda>r. u_id r \<noteq> tg_id user) (users st)) = []"
    by (induction "users st") (auto simp: filter_empty_conv)
  then show ?thesis by (simp add: save_user_def)
qed

lemma save_user_other_rows:
  "filter (\<lambda>r. u_id r \<noteq> tg_id user) (users (save_user e user st)) =
   filter (\<lambda>r. u_id r \<noteq> tg_id user) (users st)"
  by (simp add: save_user_def)

lemma save_user_new_row:
  "last (users (save_user e user st)) =
     \<lparr>u_id = tg_id user, u_username = tg_username user, u_first_name = tg_first_name user,
      u_last_name = tg_last_name user, u_created_at = sql_now e, u_last_activity = py_now e\<rparr>"
  by (simp add: save_user_def)

lemma save_user_twice:
  "save_user e2 user (save_user e1 user st) = save_user e2 user st"
  by (simp add: save_user_def)

lemma save_user_tickets:
  "tickets (save_user e user st) = tickets st" "tickets_seq (save_user e user st) = tickets_seq st"
  by (simp_all add: save_user_def)

text \<open>
  C4. As specified, \<open>save_user\<close> is an upsert keyed by the user id that refreshes
  the name fields and \<open>last_activity\<close> and leaves the rest of the row, \<open>created_at\<close>
  in particular, as it was. The lemmas above give what the code fulfils: one row
  per identity, the rows of other users untouched, the later of two calls
  deciding. It does not keep \<open>created_at\<close>: the row is replaced whole, and a user
  first saved at time 1000 and saved again at time 5000 has \<open>created_at\<close> 5000.
\<close>

theorem save_user_resets_created_at:
  "users (save_user first_visit viewer empty_store) =
     [\<lparr>u_id = 42, u_username = Some (ascii ''viewer''), u_first_name = ascii ''Aigul'',
       u_last_name = None, u_created_at = 1000, u_last_activity = 1000\<rparr>] \<and>
   users (save_user later_visit viewer (save_user first_visit viewer empty_store)) =
     [\<lparr>u_id = 42, u_username = Some (ascii ''viewer''), u_first_name = ascii ''Aigul'',
       u_last_name = None, u_created_at = 5000, u_last_activity = 5000\<rparr>]"
  by (simp add: save_user_def first_visit_def later_visit_def viewer_def empty_store_def)

section \<open>The store: tickets\<close>

lemma fold_max_ge_start: "m \<le> fold (\<lambda>r m. max (t_id r) m) rows m"
proof (induction rows arbitrary: m)
  case Nil
  show ?case by simp
next
  case (Cons r rows)
  have "m \<le> max (t_id r) m" by simp
  also have "\<dots> \<le> fold (\<lambda>r m. max (t_id r) m) rows (max (t_id r) m)" by (rule Cons.IH)
  finally show ?case by simp
qed

lemma fold_max_ge_row: "r \<in> set rows \<Longrightarrow> t_id r \<le> fold (\<lambda>r m. max (t_id r) m) rows m"
proof (induction rows arbitrary: m)
  case Nil
  then show ?case by simp
next
  case (Cons r' rows)
  show ?case
  proof (cases "r = r'")
    case True
    have "t_id r \<le> max (t_id r) m" by simp
    also have "\<dots> \<le> fold (\<lambda>r m. max (t_id r) m) rows (max (t_id r) m)"
      by (rule fold_max_ge_start)
    finally show ?thesis using True by simp
  next
    case False
    with Cons.prems have "r \<in> set rows" by simp
    then show ?thesis using Cons.IH by simp
  qed
qed

lemma largest_id_ge: "r \<in> set rows \<Longrightarrow> t_id r \<le> largest_id rows"
  unfolding largest_id_def by (rule fold_max_ge_row)

lemma create_ticket_seq:
  "tickets_seq (snd (create_ticket e user_id message category st)) =
     fst (create_ticket e user_id message category st)"
  "tickets_seq st < fst (create_ticket e user_id message category st)"
  by (simp_all add: create_ticket_def Let_def)

lemma create_tickets_above_seq:
  "\<forall>i \<in> set (fst (create_tickets calls st)). tickets_seq st < i"
proof (induction calls arbitrary: st)
  case Nil
  show ?case by simp
next
  case (Cons call calls)
  obtain e user_id message category where call: "call = (e, user_id, message, category)"
    by (cases call) auto
  let ?r = "create_ticket e user_id message category st"
  have "\<forall>i \<in> set (fst (create_tickets calls (snd ?r))). fst ?r < i"
    using Cons.IH [of "snd ?r"] by (simp add: create_ticket_seq)
  moreover have "tickets_seq st < fst ?r" by (rule create_ticket_seq)
  ultimately show ?case
    by (auto simp: call split_beta Let_def)
qed

lemma create_tickets_increasing: "sorted_wrt (<) (fst (create_tickets calls st))"
proof (induction calls arbitrary: st)
  case Nil
  show ?case by simp
next
  case (Cons call calls)
  obtain e user_id message category where call: "call = (e, user_id, message, category)"
    by (cases call) auto
  let ?r = "create_ticket e user_id message category st"
  have "\<forall>i \<in> set (fst (create_tickets calls (snd ?r))). fst ?r < i"
    using create_tickets_above_seq [of calls "snd ?r"] by (simp add: create_ticket_seq)
  with Cons.IH [of "snd ?r"] show ?case
    by (simp add: call split_beta Let_def)
qed

section \<open>What the handlers do to the tickets\<close>

lemma command_names:
  "ascii ''stats'' \<noteq> ascii ''start''" "ascii ''stats'' \<noteq> ascii ''help''"
  "ascii ''stats'' \<noteq> ascii ''ticket''" "ascii ''ticket'' \<noteq> ascii ''start''"
  "ascii ''ticket'' \<noteq> ascii ''help''"
  by (simp_all add: ascii_def)

lemma button_names:
  "create_ticket_data \<noteq> schedule_data" "create_ticket_data \<noteq> tech_support_data"
  "create_ticket_data \<noteq> contacts_data" "create_ticket_data \<noteq> faq_data"
  by (simp_all add: create_ticket_data_def schedule_data_def tech_support_data_def
      contacts_data_def faq_data_def ascii_def)

lemma store_handle_message:
  "tickets (fst (handle_message cfg lower e message_text message_set sender st)) = tickets st"
  "tickets_seq (fst (handle_message cfg lower e message_text message_set sender st)) =
     tickets_seq st"
  by (cases sender; simp add: handle_message_def split_beta save_user_tickets Let_def)+

lemma tickets_ticket_command:
  "tickets (fst (ticket_command e from_button message_set user st)) =
     tickets st @
     [\<lparr>t_id = max (tickets_seq st) (largest_id (tickets st)) + 1,
       t_user_id = tg_id user, t_message = ticket_placeholder, t_status = status_open,
       t_created_at = sql_now e, t_resolved_at = None, t_category = general\<rparr>]"
  by (simp add: ticket_command_def create_ticket_def Let_def)

lemma tickets_handle_callback:
  "tickets (fst (handle_callback e data user st)) =
     (if data = create_ticket_data then tickets (fst (ticket_command e True False user st))
      else tickets st)"
  by (simp add: handle_callback_def button_names Let_def split_beta)

lemma tickets_ticket_update:
  "tickets (fst (handle_update cfg lower e (Command (ascii ''ticket'') field user) st)) =
     tickets (fst (ticket_command e False (has_message field) user st))"
  by (simp add: handle_update_def command_names)

lemma tickets_button_update:
  "tickets (fst (handle_update cfg lower e (Callback_query create_ticket_data user) st)) =
     tickets (fst (ticket_command e True False user st))"
  by (simp add: handle_update_def tickets_handle_callback)

lemma tickets_text_update:
  "tickets (fst (handle_update cfg lower e (Text_message message_text field sender) st)) =
     tickets st"
  by (simp add: handle_update_def store_handle_message)

lemma tickets_handle_update:
  "\<exists>added. tickets (fst (handle_update cfg lower e u st)) = tickets st @ added \<and>
     (\<forall>t \<in> set added. t_message t = ticket_placeholder \<and> t_category t = general)"
proof (cases u)
  case (Command name field user)
  then show ?thesis
    by (simp add: handle_update_def start_def help_command_def get_stats_def
        save_user_tickets tickets_ticket_command Let_def)
next
  case (Callback_query data user)
  then show ?thesis
    by (simp add: handle_update_def tickets_handle_callback tickets_ticket_command)
next
  case (Text_message message_text field sender)
  then show ?thesis
    by (simp add: tickets_text_update)
next
  case Other_update
  then show ?thesis
    by (simp add: handle_update_def)
qed

lemma tickets_handle_updates:
  "\<forall>t \<in> set (tickets st). t_message t = ticket_placeholder \<and> t_category t = general \<Longrightarrow>
   \<forall>t \<in> set (tickets (handle_updates cfg lower evs st)).
     t_message t = ticket_placeholder \<and> t_category t = general"
proof (induction evs arbitrary: st)
  case Nil
  then show ?case by simp
next
  case (Cons ev evs)
  obtain e u where ev: "ev = (e, u)" by (cases ev)
  obtain added where
    a: "tickets (fst (handle_update cfg lower e u st)) = tickets st @ added" and
    b: "\<forall>t \<in> set added. t_message t = ticket_placeholder \<and> t_category t = general"
    using tickets_handle_update [of cfg lower e u st] by blast
  from Cons.prems b
  have "\<forall>t \<in> set (tickets st @ added).
      t_message t = ticket_placeholder \<and> t_category t = general"
    by (simp add: ball_Un)
  then have "\<forall>t \<in> set (tickets (fst (handle_update cfg lower e u st))).
      t_message t = ticket_placeholder \<and> t_category t = general"
    by (simp only: a)
  then have "\<forall>t \<in> set (tickets (handle_updates cfg lower evs
        (fst (handle_update cfg lower e u st)))).
      t_message t = ticket_placeholder \<and> t_category t = general"
    by (rule Cons.IH)
  then show ?case by (simp only: ev handle_updates.simps)
qed

lemma seq_ticket_command:
  "tickets_seq (fst (ticket_command e from_button message_set user st)) =
     max (tickets_seq st) (largest_id (tickets st)) + 1"
  by (simp add: ticket_command_def create_ticket_def Let_def)

lemma seq_ticket_command_ge:
  "tickets_seq st \<le> tickets_seq (fst (ticket_command e from_button message_set user st))"
  by (simp add: seq_ticket_command max_def)

lemma seq_handle_callback:
  "tickets_seq (fst (handle_callback e data user st)) =
     (if data = create_ticket_data then tickets_seq (fst (ticket_command e True False user st))
      else tickets_seq st)"
  by (simp add: handle_callback_def button_names Let_def split_beta)

lemma seq_handle_update:
  "tickets_seq st \<le> tickets_seq (fst (handle_update cfg lower e u st))"
proof (cases u)
  case (Command name field user)
  then show ?thesis
    by (simp add: handle_update_def start_def help_command_def get_stats_def
        save_user_tickets seq_ticket_command_ge Let_def)
next
  case (Callback_query data user)
  then show ?thesis
    by (simp add: handle_update_def seq_handle_callback seq_ticket_command_ge)
next
  case (Text_message message_text field sender)
  then show ?thesis
    by (simp add: handle_update_def store_handle_message)
next
  case Other_update
  then show ?thesis
    by (simp add: handle_update_def)
qed

lemma seq_handle_updates:
  "tickets_seq st \<le> tickets_seq (handle_updates cfg lower evs st)"
proof (induction evs arbitrary: st)
  case Nil
  show ?case by simp
next
  case (Cons ev evs)
  obtain e u where ev: "ev = (e, u)" by (cases ev)
  have "tickets_seq st \<le> tickets_seq (fst (handle_update cfg lower e u st))"
    by (rule seq_handle_update)
  also have "\<dots> \<le> tickets_seq (handle_updates cfg lower evs (fst (handle_update cfg lower e u st)))"
    by (rule Cons.IH)
  finally show ?case by (simp only: ev handle_updates.simps)
qed

section \<open>Creating tickets\<close>

text \<open>
  C5. For every user id and message, \<open>create_ticket\<close> appends exactly one row to
  the tickets and changes no other row, nor the users: the row has the arguments,
  status \<open>open\<close>, and the category given, \<open>general\<close> when none is; its id is the
  value returned, which is larger than every id in the table and than every id
  given out before. The ids returned by successive calls are strictly increasing,
  when the calls follow one another directly and when the bot handles any
  updates in between.
\<close>

theorem create_ticket_inserts_open_row:
  "tickets (snd (create_ticket e user_id message category st)) =
     tickets st @
     [\<lparr>t_id = fst (create_ticket e user_id message category st),
       t_user_id = user_id, t_message = message, t_status = status_open,
       t_created_at = sql_now e, t_resolved_at = None,
       t_category = (case category of None \<Rightarrow> general | Some c \<Rightarrow> c)\<rparr>] \<and>
   users (snd (create_ticket e user_id message category st)) = users st \<and>
   (\<forall>r \<in> set (tickets st). t_id r < fst (create_ticket e user_id message category st)) \<and>
   tickets_seq st < fst (create_ticket e user_id message category st) \<and>
   sorted_wrt (<) (fst (create_tickets calls st)) \<and>
   fst (create_ticket e user_id message category st) <
     fst (create_ticket e' user_id' message' category'
       (handle_updates cfg lower evs (snd (create_ticket e user_id message category st))))"
proof -
  let ?first = "create_ticket e user_id message category st"
  let ?between = "handle_updates cfg lower evs (snd ?first)"
  have above: "\<forall>r \<in> set (tickets st). t_id r < fst ?first"
  proof
    fix r assume "r \<in> set (tickets st)"
    then have "t_id r \<le> largest_id (tickets st)" by (rule largest_id_ge)
    then show "t_id r < fst ?first"
      by (simp add: create_ticket_def Let_def)
  qed
  have "fst ?first = tickets_seq (snd ?first)" by (simp add: create_ticket_seq)
  also have "\<dots> \<le> tickets_seq ?between" by (rule seq_handle_updates)
  also have "\<dots> < fst (create_ticket e' user_id' message' category' ?between)"
    by (rule create_ticket_seq)
  finally have later: "fst ?first < fst (create_ticket e' user_id' message' category' ?between)" .
  have row: "tickets (snd ?first) =
     tickets st @
     [\<lparr>t_id = fst ?first, t_user_id = user_id, t_message = message, t_status = status_open,
       t_created_at = sql_now e, t_resolved_at = None,
       t_category = (case category of None \<Rightarrow> general | Some c \<Rightarrow> c)\<rparr>]"
    by (simp add: create_ticket_def Let_def)
  have users: "users (snd ?first) = users st"
    by (simp add: create_ticket_def Let_def)
  have seq: "tickets_seq st < fst ?first" by (rule create_ticket_seq)
  have sorted: "sorted_wrt (<) (fst (create_tickets calls st))"
    by (rule create_tickets_increasing)
  from row users above seq sorted later show ?thesis by (intro conjI)
qed

theorem create_ticket_inserts_open_row_witness:
  "create_tickets
     [(first_visit, 42, ticket_placeholder, None),
      (later_visit, 42, plain_hello, Some (ascii ''billing''))]
     empty_store =
   ([1, 2],
    \<lparr>users = [],
     tickets =
       [\<lparr>t_id = 1, t_user_id = 42, t_message = ticket_placeholder, t_status = status_open,
         t_created_at = 1000, t_resolved_at = None, t_category = general\<rparr>,
        \<lparr>t_id = 2, t_user_id = 42, t_message = plain_hello, t_status = status_open,
         t_created_at = 5000, t_resolved_at = None, t_category = ascii ''billing''\<rparr>],
     tickets_seq = 2\<rparr>) \<and>
   sorted_wrt (<) (fst (create_tickets
     [(first_visit, 42, ticket_placeholder, None),
      (later_visit, 42, plain_hello, Some (ascii ''billing''))]
     empty_store)) \<and>
   list_all (\<lambda>r. t_id r < 2)
     (tickets (snd (create_ticket first_visit 42 ticket_placeholder None empty_store)))"
proof -
  let ?calls = "[(first_visit, 42, ticket_placeholder, None),
      (later_visit, 42, plain_hello, Some (ascii ''billing''))]"
  let ?st = "snd (create_ticket first_visit 42 ticket_placeholder None empty_store)"
  have run: "create_tickets ?calls empty_store =
   ([1, 2],
    \<lparr>users = [],
     tickets =
       [\<lparr>t_id = 1, t_user_id = 42, t_message = ticket_placeholder, t_status = status_open,
         t_created_at = 1000, t_resolved_at = None, t_category = general\<rparr>,
        \<lparr>t_id = 2, t_user_id = 42, t_message = plain_hello, t_status = status_open,
         t_created_at = 5000, t_resolved_at = None, t_category = ascii ''billing''\<rparr>],
     tickets_seq = 2\<rparr>)"
    by (simp add: create_ticket_def largest_id_def empty_store_def first_visit_def
        later_visit_def Let_def)
  have second: "fst (create_ticket later_visit 42 plain_hello (Some (ascii ''billing'')) ?st) = 2"
    by (simp add: create_ticket_def largest_id_def empty_store_def Let_def)
  from create_ticket_inserts_open_row
    [of later_visit 42 plain_hello "Some (ascii ''billing'')" ?st ?calls]
  have "\<forall>r \<in> set (tickets ?st).
      t_id r < fst (create_ticket later_visit 42 plain_hello (Some (ascii ''billing'')) ?st)"
    by (rule conjunct1 [OF conjunct2 [OF conjunct2]])
  then have before: "list_all (\<lambda>r. t_id r < 2) (tickets ?st)"
    by (simp only: second list_all_iff)
  from create_ticket_inserts_open_row
    [of first_visit 42 ticket_placeholder None empty_store ?calls]
  have "sorted_wrt (<) (fst (create_tickets ?calls empty_store))"
    by (rule conjunct1 [OF conjunct2 [OF conjunct2 [OF conjunct2 [OF conjunct2]]]])
  with run before show ?thesis by (intro conjI)
qed

section \<open>The router: statistics, startup, tickets\<close>

lemma stats_stranger:
  "tg_id user \<notin> set (ADMIN_IDS cfg) \<Longrightarrow>
     handle_update cfg lower e (Command (ascii ''stats'') field user) st =
       (st, [reply_text (has_message field) (JStr denied_text) [] Plain])"
  by (simp add: handle_update_def get_stats_def command_names)

lemma stats_queries_iff_admin:
  "(\<exists>s. Execute s \<in> set (snd (handle_update cfg lower e (Command (ascii ''stats'') field user) st)))
     \<longleftrightarrow> tg_id user \<in> set (ADMIN_IDS cfg)"
  by (auto simp: handle_update_def get_stats_def command_names reply_text_def Let_def)

lemma stats_refused_in_new_message:
  "tg_id user \<notin> set (ADMIN_IDS cfg) \<Longrightarrow>
     handle_update cfg lower e (Command (ascii ''stats'') Message user) st =
       (st, [Reply_text (JStr denied_text) [] Plain])"
  by (simp add: stats_stranger reply_text_def)

text \<open>
  C6. As specified, every statistics request of a sender outside \<open>ADMIN_IDS\<close> is
  answered with the refusal and leads to no query on the store. The lemmas above
  give what the code fulfils: for such a sender no statement is executed and the
  store is left as it is, statements being executed for the senders in the list
  only; and the refusal is sent when the command arrives as a new message. When
  it arrives as an edited message the refusal is lost: the command handler takes
  the update, \<open>update.message\<close> is \<open>None\<close>, line 350 raises \<open>AttributeError\<close> and
  the sender gets no answer.
\<close>

theorem stats_refusal_lost_on_edited_command:
  "handle_update configured str_lower later_visit
     (Command (ascii ''stats'') Edited_message viewer) empty_store =
     (empty_store, [Raises AttributeError]) \<and>
   handle_update configured str_lower later_visit
     (Command (ascii ''stats'') Message viewer) empty_store =
     (empty_store, [Reply_text (JStr denied_text) [] Plain])"
proof -
  have n: "tg_id viewer \<notin> set (ADMIN_IDS configured)"
    by (simp add: viewer_def configured_def)
  show ?thesis
    by (simp add: stats_stranger [OF n] reply_text_def)
qed

text \<open>
  C8. When the bot token or the generation-service key is missing from the
  configuration, \<open>run\<close> logs the error and returns: it builds no application,
  registers no handler and never starts polling, so no update is handled.
\<close>

theorem run_refuses_without_credentials:
  "not_set (BOT_TOKEN cfg) \<or> not_set (GEMINI_API_KEY cfg) \<Longrightarrow>
     run cfg =
       (if not_set (BOT_TOKEN cfg) then [Log ERROR log_no_bot_token No_value]
        else [Log ERROR log_no_api_key No_value]) \<and>
     (\<forall>token. Build_application token \<notin> set (run cfg)) \<and>
     Setup_handlers \<notin> set (run cfg) \<and> Run_polling \<notin> set (run cfg)"
  by (auto simp: run_def)

theorem run_refuses_without_credentials_witness:
  "(not_set (BOT_TOKEN keyless) \<or> not_set (GEMINI_API_KEY keyless)) \<and>
   run keyless = [Log ERROR log_no_api_key No_value] \<and>
   Run_polling \<notin> set (run keyless) \<and>
   run configured =
     [Build_application (Some (ascii ''token'')), Setup_handlers, Log INFO log_started No_value,
      Run_polling]"
proof -
  have h: "not_set (BOT_TOKEN keyless) \<or> not_set (GEMINI_API_KEY keyless)"
    by (simp add: keyless_def)
  have t: "\<not> not_set (BOT_TOKEN keyless)"
    by (simp add: keyless_def ascii_def)
  have c: "run configured =
     [Build_application (Some (ascii ''token'')), Setup_handlers, Log INFO log_started No_value,
      Run_polling]"
    by (simp add: run_def configured_def ascii_def)
  from run_refuses_without_credentials [OF h] t h c show ?thesis by simp
qed

text \<open>
  C10. The ticket command and the create-ticket button both add one ticket whose
  message is the fixed placeholder and whose category is \<open>general\<close>, in whichever
  field the command arrives; a text message adds no ticket; and after any
  sequence of updates on a new store every ticket holds the placeholder and
  \<open>general\<close>: no text a user sends is stored in a ticket.
\<close>

theorem tickets_hold_placeholder:
  "tickets (fst (handle_update cfg lower e (Command (ascii ''ticket'') field user) st)) =
     tickets st @
     [\<lparr>t_id = max (tickets_seq st) (largest_id (tickets st)) + 1,
       t_user_id = tg_id user, t_message = ticket_placeholder, t_status = status_open,
       t_created_at = sql_now e, t_resolved_at = None, t_category = general\<rparr>] \<and>
   tickets (fst (handle_update cfg lower e (Callback_query create_ticket_data user) st)) =
     tickets st @
     [\<lparr>t_id = max (tickets_seq st) (largest_id (tickets st)) + 1,
       t_user_id = tg_id user, t_message = ticket_placeholder, t_status = status_open,
       t_created_at = sql_now e, t_resolved_at = None, t_category = general\<rparr>] \<and>
   tickets (fst (handle_update cfg lower e (Text_message user_message field' sender) st)) =
     tickets st \<and>
   (\<forall>t \<in> set (tickets (handle_updates cfg lower evs empty_store)).
      t_message t = ticket_placeholder \<and> t_category t = general)"
proof -
  have "\<forall>t \<in> set (tickets empty_store). t_message t = ticket_placeholder \<and> t_category t = general"
    by (simp add: empty_store_def)
  then have "\<forall>t \<in> set (tickets (handle_updates cfg lower evs empty_store)).
      t_message t = ticket_placeholder \<and> t_category t = general"
    by (rule tickets_handle_updates)
  then show ?thesis
    by (simp add: tickets_ticket_update tickets_button_update tickets_text_update
        tickets_ticket_command)
qed

theorem tickets_hold_placeholder_witness:
  "map t_message (tickets (handle_updates keyless str_lower
     [(first_visit, Text_message mixed_case_complaint Message (Some viewer)),
      (first_visit, Command (ascii ''ticket'') Message viewer),
      (later_visit, Text_message plain_hello Message (Some viewer)),
      (later_visit, Callback_query create_ticket_data viewer)] empty_store)) =
     [ticket_placeholder, ticket_placeholder] \<and>
   map t_category (tickets (handle_updates keyless str_lower
     [(first_visit, Text_message mixed_case_complaint Message (Some viewer)),
      (first_visit, Command (ascii ''ticket'') Message viewer),
      (later_visit, Text_message plain_hello Message (Some viewer)),
      (later_visit, Callback_query create_ticket_data viewer)] empty_store)) =
     [general, general] \<and>
   mixed_case_complaint \<noteq> ticket_placeholder \<and> plain_hello \<noteq> ticket_placeholder"
proof -
  let ?evs = "[(first_visit, Text_message mixed_case_complaint Message (Some viewer)),
      (first_visit, Command (ascii ''ticket'') Message viewer),
      (later_visit, Text_message plain_hello Message (Some viewer)),
      (later_visit, Callback_query create_ticket_data viewer)]"
  let ?ts = "tickets (handle_updates keyless str_lower ?evs empty_store)"
  have l: "length ?ts = 2"
    by (simp add: tickets_ticket_update tickets_button_update tickets_text_update
        tickets_ticket_command empty_store_def)
  from tickets_hold_placeholder
    [of keyless str_lower first_visit Message viewer empty_store "[]" Message None ?evs]
  have a: "\<forall>t \<in> set ?ts. t_message t = ticket_placeholder \<and> t_category t = general"
    by blast
  from l obtain t1 t2 where ts: "?ts = [t1, t2]"
    by (auto simp: length_Suc_conv numeral_2_eq_2)
  from a have "map t_message ?ts = [ticket_placeholder, ticket_placeholder]"
    and "map t_category ?ts = [general, general]"
    unfolding ts by simp_all
  moreover have "mixed_case_complaint \<noteq> ticket_placeholder" "plain_hello \<noteq> ticket_placeholder"
    by (simp_all add: mixed_case_complaint_def plain_hello_def ticket_placeholder_def)
  ultimately show ?thesis by blast
qed

end
